theory Spec2Isabelle
  imports Complex_Main "HOL-Library.Sublist" "HOL-Library.Monad_Syntax"
begin

section \<open>Python values\<close>

text \<open>
  The normalizer and the cascade work on what \<^verbatim>\<open>json.loads\<close> produces: None, booleans,
  integers, floats, strings, lists and dicts with string keys.  A dict is an association
  list in insertion order; \<^verbatim>\<open>d.get(k)\<close> reads the first entry with that key.  A string is
  a list of characters (code points below 256).
\<close>

datatype pyval =
    PNone
  | PBool bool
  | PInt int
  | PFloat real
  | PStr string
  | PList "pyval list"
  | PDict "(string \<times> pyval) list"

text \<open>Truth value of an object, as \<^verbatim>\<open>if x:\<close>, \<^verbatim>\<open>not x\<close> and \<^verbatim>\<open>x or y\<close> test it.\<close>

fun truthy :: "pyval \<Rightarrow> bool" where
  "truthy PNone = False"
| "truthy (PBool b) = b"
| "truthy (PInt i) = (i \<noteq> 0)"
| "truthy (PFloat r) = (r \<noteq> 0)"
| "truthy (PStr s) = (s \<noteq> [])"
| "truthy (PList xs) = (xs \<noteq> [])"
| "truthy (PDict d) = (d \<noteq> [])"

text \<open>\<^verbatim>\<open>x or y\<close>: the first operand when it is truthy, the second otherwise.\<close>

definition py_or :: "pyval \<Rightarrow> pyval \<Rightarrow> pyval" where
  "py_or x y = (if truthy x then x else y)"

fun is_dict :: "pyval \<Rightarrow> bool" where
  "is_dict (PDict d) = True"
| "is_dict _ = False"

text \<open>\<^verbatim>\<open>d.get(k, default)\<close> and \<^verbatim>\<open>d.get(k)\<close>, whose default is None.\<close>

definition dict_get :: "(string \<times> pyval) list \<Rightarrow> string \<Rightarrow> pyval \<Rightarrow> pyval" where
  "dict_get d k dflt = (case map_of d k of Some v \<Rightarrow> v | None \<Rightarrow> dflt)"

abbreviation dict_get_none :: "(string \<times> pyval) list \<Rightarrow> string \<Rightarrow> pyval" where
  "dict_get_none d k \<equiv> dict_get d k PNone"

text \<open>\<^verbatim>\<open>if not isinstance(data, dict): data = {}\<close>\<close>

fun dict_or_empty :: "pyval \<Rightarrow> (string \<times> pyval) list" where
  "dict_or_empty (PDict d) = d"
| "dict_or_empty _ = []"

text \<open>\<^verbatim>\<open>if not isinstance(xs, list): xs = []\<close>\<close>

fun list_or_empty :: "pyval \<Rightarrow> pyval list" where
  "list_or_empty (PList xs) = xs"
| "list_or_empty _ = []"

subsection \<open>Strings\<close>

text \<open>\<^verbatim>\<open>str.isspace\<close> on the code points below 256.\<close>

definition isspace :: "char \<Rightarrow> bool" where
  "isspace c =
     (let n = (of_char c :: nat)
      in (9 \<le> n \<and> n \<le> 13) \<or> (28 \<le> n \<and> n \<le> 32) \<or> n = 133 \<or> n = 160)"

text \<open>\<^verbatim>\<open>s.strip()\<close>: leading and trailing whitespace removed.\<close>

definition strip :: "string \<Rightarrow> string" where
  "strip s = rev (dropWhile isspace (rev (dropWhile isspace s)))"

definition newline :: string where
  "newline = [CHR 0x0A]"

text \<open>The lines of a triple-quoted literal, joined by line feeds.\<close>

fun join_lines :: "string list \<Rightarrow> string" where
  "join_lines [] = []"
| "join_lines [l] = l"
| "join_lines (l # ls) = l @ newline @ join_lines ls"

section \<open>The response normalizer (services/normalizer.py)\<close>

definition safe_string :: "pyval \<Rightarrow> string \<Rightarrow> pyval" where
  "safe_string v dflt =
     (case v of
        PStr s \<Rightarrow> if s \<noteq> [] \<and> strip s \<noteq> [] then PStr (strip s) else PStr dflt
      | _ \<Rightarrow> PStr dflt)"

definition not_provided :: string where
  "not_provided = ''Not provided by AI''"

definition safe_list :: "pyval \<Rightarrow> pyval list \<Rightarrow> pyval" where
  "safe_list v dflt = (case v of PList xs \<Rightarrow> PList xs | _ \<Rightarrow> PList dflt)"

definition normalize_summary :: "pyval \<Rightarrow> pyval" where
  "normalize_summary data0 =
     (let data = dict_or_empty data0 in
      PDict
       [(''problem_statement'', safe_string (dict_get_none data ''problem_statement'') not_provided),
        (''target_users'', safe_list (dict_get_none data ''target_users'') [PStr ''Users'']),
        (''objectives'', safe_list (dict_get_none data ''objectives'') [PStr ''Complete the project'']),
        (''scope'', safe_string (dict_get_none data ''scope'') ''Defined by project requirements''),
        (''what_this_means'', safe_string (dict_get_none data ''what_this_means'')
            ''This section explains your project's purpose''),
        (''why_this_matters'', safe_string (dict_get_none data ''why_this_matters'')
            ''Understanding this helps you explain your project clearly'')])"

text \<open>The loop of \<^verbatim>\<open>_normalize_features\<close>: elements that are not dicts are skipped.\<close>

fun normalize_feature_items :: "pyval list \<Rightarrow> pyval list" where
  "normalize_feature_items [] = []"
| "normalize_feature_items (PDict f # fs) =
     PDict
      [(''feature_name'', safe_string (dict_get_none f ''feature_name'') ''Feature''),
       (''what_it_does'', safe_string (dict_get_none f ''what_it_does'') ''Provides functionality to users''),
       (''why_it_exists'', safe_string (dict_get_none f ''why_it_exists'') ''Addresses a user need''),
       (''how_it_helps'', safe_string (dict_get_none f ''how_it_helps'') ''Improves user experience''),
       (''limitations'', safe_string (dict_get_none f ''limitations'') ''None specified'')]
     # normalize_feature_items fs"
| "normalize_feature_items (_ # fs) = normalize_feature_items fs"

definition default_features :: "pyval list" where
  "default_features =
     [PDict
       [(''feature_name'', PStr ''Core Feature''),
        (''what_it_does'', PStr ''Provides the main functionality''),
        (''why_it_exists'', PStr ''To solve the core problem''),
        (''how_it_helps'', PStr ''Delivers value to users''),
        (''limitations'', PStr ''Specific limitations depend on implementation'')]]"

definition normalize_features :: "pyval \<Rightarrow> pyval" where
  "normalize_features data0 =
     (let data = dict_or_empty data0;
          features_list = list_or_empty (dict_get data ''features'' (PList []));
          normalized_features = normalize_feature_items features_list
      in PDict
          [(''features'',
            PList (if normalized_features = [] then default_features else normalized_features))])"

definition feasibility_levels :: "pyval list" where
  "feasibility_levels = [PStr ''High'', PStr ''Medium'', PStr ''Low'']"

definition normalize_feasibility :: "pyval \<Rightarrow> pyval" where
  "normalize_feasibility data0 =
     (let data = dict_or_empty data0;
          level0 = dict_get data ''feasibility_level'' (PStr ''Medium'');
          level = (if level0 \<notin> set feasibility_levels then PStr ''Medium'' else level0)
      in PDict
          [(''feasibility_level'', level),
           (''feasibility_explanation'', safe_string (dict_get_none data ''feasibility_explanation'')
               ''This project is achievable for a college student''),
           (''strengths'', safe_list (dict_get_none data ''strengths'') [PStr ''Good educational value'']),
           (''risks'', safe_list (dict_get_none data ''risks'') [PStr ''Time management is important'']),
           (''why_this_matters'', safe_string (dict_get_none data ''why_this_matters'')
               ''Knowing feasibility helps you plan realistically'')])"

text \<open>
  The loop of \<^verbatim>\<open>_normalize_system_flow\<close> over \<^verbatim>\<open>enumerate(steps)\<close>; \<open>i\<close> is the index of
  the head of the list in the raw list.
\<close>

fun normalize_steps :: "nat \<Rightarrow> pyval list \<Rightarrow> pyval list" where
  "normalize_steps i [] = []"
| "normalize_steps i (PDict step # steps) =
     PDict
      [(''step_number'', dict_get step ''step_number'' (PInt (int i + 1))),
       (''actor'', safe_string (dict_get_none step ''actor'') ''User''),
       (''action'', safe_string (dict_get_none step ''action'') ''Performs action''),
       (''explanation'', safe_string (dict_get_none step ''explanation'') ''Part of the workflow'')]
     # normalize_steps (Suc i) steps"
| "normalize_steps i (_ # steps) = normalize_steps (Suc i) steps"

definition default_steps :: "pyval list" where
  "default_steps =
     [PDict [(''step_number'', PInt 1), (''actor'', PStr ''User''),
             (''action'', PStr ''Opens application''), (''explanation'', PStr ''Entry point'')],
      PDict [(''step_number'', PInt 2), (''actor'', PStr ''System''),
             (''action'', PStr ''Processes request''), (''explanation'', PStr ''Core processing'')],
      PDict [(''step_number'', PInt 3), (''actor'', PStr ''System''),
             (''action'', PStr ''Returns result''), (''explanation'', PStr ''Output to user'')]]"

definition normalize_system_flow :: "pyval \<Rightarrow> pyval" where
  "normalize_system_flow data0 =
     (let data = dict_or_empty data0;
          steps = list_or_empty (dict_get data ''steps'' (PList []));
          normalized_steps = normalize_steps 0 steps
      in PDict
          [(''flow_title'', safe_string (dict_get_none data ''flow_title'') ''System Flow''),
           (''steps'', PList (if normalized_steps = [] then default_steps else normalized_steps)),
           (''summary'', safe_string (dict_get_none data ''summary'')
               ''This flow shows how users interact with the system'')])"

fun normalize_primary_items :: "pyval list \<Rightarrow> pyval list" where
  "normalize_primary_items [] = []"
| "normalize_primary_items (PDict item # items) =
     PDict
      [(''category'', safe_string (dict_get_none item ''category'') ''General''),
       (''technology'', safe_string (dict_get_none item ''technology'') ''Technology''),
       (''justification'', safe_string (dict_get_none item ''justification'') ''Suitable for this project''),
       (''skill_level'', safe_string (dict_get_none item ''skill_level'') ''Beginner-friendly'')]
     # normalize_primary_items items"
| "normalize_primary_items (_ # items) = normalize_primary_items items"

fun normalize_backup_items :: "pyval list \<Rightarrow> pyval list" where
  "normalize_backup_items [] = []"
| "normalize_backup_items (PDict item # items) =
     PDict
      [(''category'', safe_string (dict_get_none item ''category'') ''General''),
       (''technology'', safe_string (dict_get_none item ''technology'') ''Alternative''),
       (''why_backup'', safe_string (dict_get_none item ''why_backup'') ''Alternative option if needed'')]
     # normalize_backup_items items"
| "normalize_backup_items (_ # items) = normalize_backup_items items"

definition default_primary_stack :: "pyval list" where
  "default_primary_stack =
     [PDict [(''category'', PStr ''Frontend''), (''technology'', PStr ''HTML/CSS/JavaScript''),
             (''justification'', PStr ''Universal web technologies''),
             (''skill_level'', PStr ''Beginner-friendly'')],
      PDict [(''category'', PStr ''Backend''), (''technology'', PStr ''Python or Node.js''),
             (''justification'', PStr ''Common choices for web apps''),
             (''skill_level'', PStr ''Beginner-friendly'')],
      PDict [(''category'', PStr ''Database''), (''technology'', PStr ''MySQL or MongoDB''),
             (''justification'', PStr ''Well-documented options''),
             (''skill_level'', PStr ''Beginner-friendly'')]]"

definition normalize_tech_stack :: "pyval \<Rightarrow> pyval" where
  "normalize_tech_stack data0 =
     (let data = dict_or_empty data0;
          primary = list_or_empty (dict_get data ''primary_stack'' (PList []));
          normalized_primary = normalize_primary_items primary;
          backup = list_or_empty (dict_get data ''backup_stack'' (PList []));
          normalized_backup = normalize_backup_items backup
      in PDict
          [(''primary_stack'',
            PList (if normalized_primary = [] then default_primary_stack else normalized_primary)),
           (''backup_stack'', PList normalized_backup)])"

fun normalize_solution_items :: "pyval list \<Rightarrow> pyval list" where
  "normalize_solution_items [] = []"
| "normalize_solution_items (PDict sol # sols) =
     PDict
      [(''solution_name'', safe_string (dict_get_none sol ''solution_name'') ''Existing Solution''),
       (''what_it_does'', safe_string (dict_get_none sol ''what_it_does'') ''Provides similar functionality''),
       (''limitations'', safe_string (dict_get_none sol ''limitations'') ''May not fit specific needs'')]
     # normalize_solution_items sols"
| "normalize_solution_items (_ # sols) = normalize_solution_items sols"

definition normalize_comparison :: "pyval \<Rightarrow> pyval" where
  "normalize_comparison data0 =
     (let data = dict_or_empty data0;
          solutions = list_or_empty (dict_get data ''existing_solutions'' (PList []));
          normalized_solutions = normalize_solution_items solutions
      in PDict
          [(''existing_solutions'', PList normalized_solutions),
           (''unique_aspects'', safe_list (dict_get_none data ''unique_aspects'')
               [PStr ''Custom solution for specific needs'']),
           (''why_this_project_is_still_valuable'',
            safe_list
              (py_or (dict_get_none data ''why_this_project_is_still_valuable'')
                     (dict_get_none data ''why_still_valuable''))
              [PStr ''Learning experience'', PStr ''Tailored to specific requirements'']),
           (''summary_insight'', safe_string (dict_get_none data ''summary_insight'')
               ''Even though similar systems exist, this project provides valuable learning and customization opportunities.'')])"

fun normalize_common_items :: "pyval list \<Rightarrow> pyval list" where
  "normalize_common_items [] = []"
| "normalize_common_items (PDict q # qs) =
     PDict
      [(''question'', safe_string (dict_get_none q ''question'') ''Question''),
       (''suggested_answer'', safe_string (dict_get_none q ''suggested_answer'')
           ''Provide a clear, concise answer''),
       (''why_asked'', safe_string (dict_get_none q ''why_asked'') ''To assess your understanding'')]
     # normalize_common_items qs"
| "normalize_common_items (_ # qs) = normalize_common_items qs"

fun normalize_hackathon_items :: "pyval list \<Rightarrow> pyval list" where
  "normalize_hackathon_items [] = []"
| "normalize_hackathon_items (PDict q # qs) =
     PDict
      [(''question'', safe_string (dict_get_none q ''question'') ''Question''),
       (''suggested_response'', safe_string (dict_get_none q ''suggested_response'')
           ''Provide a confident response''),
       (''key_points'', safe_list (dict_get_none q ''key_points'') [PStr ''Focus on value delivered''])]
     # normalize_hackathon_items qs"
| "normalize_hackathon_items (_ # qs) = normalize_hackathon_items qs"

definition default_common_questions :: "pyval list" where
  "default_common_questions =
     [PDict [(''question'', PStr ''Why did you choose this project?''),
             (''suggested_answer'', PStr ''It solves a real problem I observed''),
             (''why_asked'', PStr ''Tests motivation'')],
      PDict [(''question'', PStr ''What challenges did you face?''),
             (''suggested_answer'', PStr ''Learning new technologies and time management''),
             (''why_asked'', PStr ''Tests problem-solving'')]]"

definition default_hackathon_questions :: "pyval list" where
  "default_hackathon_questions =
     [PDict [(''question'', PStr ''What makes this unique?''),
             (''suggested_response'', PStr ''Tailored to specific user needs''),
             (''key_points'', PList [PStr ''User focus'', PStr ''Practical value''])]]"

definition normalize_viva :: "pyval \<Rightarrow> pyval" where
  "normalize_viva data0 =
     (let data = dict_or_empty data0;
          common_qs = list_or_empty (dict_get data ''common_questions'' (PList []));
          normalized_common = normalize_common_items common_qs;
          hackathon_qs = list_or_empty (dict_get data ''hackathon_questions'' (PList []));
          normalized_hackathon = normalize_hackathon_items hackathon_qs
      in PDict
          [(''project_overview_explanation'',
            safe_string (dict_get_none data ''project_overview_explanation'')
              ''This project solves a real problem using modern technology''),
           (''problem_statement_explanation'',
            safe_string (dict_get_none data ''problem_statement_explanation'')
              ''The problem affects users in their daily workflow''),
           (''architecture_explanation'',
            safe_string (dict_get_none data ''architecture_explanation'')
              ''The system uses a standard three-tier architecture''),
           (''unique_feature_explanation'',
            safe_string (dict_get_none data ''unique_feature_explanation'')
              ''What makes this project special is its focus on the user experience''),
           (''common_questions'',
            PList (if normalized_common = [] then default_common_questions else normalized_common)),
           (''hackathon_questions'',
            PList (if normalized_hackathon = [] then default_hackathon_questions
                   else normalized_hackathon))])"

definition normalize_pitch :: "pyval \<Rightarrow> pyval" where
  "normalize_pitch data0 =
     (let data = dict_or_empty data0 in
      PDict
       [(''thirty_second_pitch'', safe_string (dict_get_none data ''thirty_second_pitch'')
           ''This project solves a real problem by providing an efficient digital solution. It saves time, reduces errors, and improves the user experience.''),
        (''one_minute_pitch'', safe_string (dict_get_none data ''one_minute_pitch'')
           ''Every day, users face challenges with manual processes. This project automates those processes, providing a faster, more reliable solution. Built with modern technologies, it's designed to be user-friendly and scalable. The system is ideal for educational or organizational settings where efficiency matters.''),
        (''key_points'', safe_list (dict_get_none data ''key_points'')
           [PStr ''Solves real problem'', PStr ''Saves time'', PStr ''User-friendly''])])"

definition default_user_flow :: string where
  "default_user_flow = join_lines
     [''flowchart TD'',
      ''    A[User Opens App] --> B{Login Required?}'',
      ''    B -->|Yes| C[Login Page]'',
      ''    B -->|No| D[Dashboard]'',
      ''    C --> E[Enter Credentials]'',
      ''    E --> F{Valid?}'',
      ''    F -->|No| C'',
      ''    F -->|Yes| D'',
      ''    D --> G[Use Features]'',
      ''    G --> H[Complete Task]'']"

definition default_tech_stack :: string where
  "default_tech_stack = join_lines
     [''flowchart LR'',
      ''    subgraph Frontend'',
      ''        A[Web Interface]'',
      ''    end'',
      ''    subgraph Backend'',
      ''        B[API Server]'',
      ''    end'',
      ''    subgraph Database'',
      ''        C[(Data Storage)]'',
      ''    end'',
      ''    A -->|HTTP| B'',
      ''    B -->|Queries| C'']"

definition normalize_diagrams :: "pyval \<Rightarrow> pyval" where
  "normalize_diagrams data0 =
     (let data = dict_or_empty data0 in
      PDict
       [(''user_flow_mermaid'', safe_string (dict_get_none data ''user_flow_mermaid'') default_user_flow),
        (''tech_stack_mermaid'', safe_string (dict_get_none data ''tech_stack_mermaid'') default_tech_stack)])"

definition get_fallback_blueprint :: pyval where
  "get_fallback_blueprint =
     PDict
      [(''summary'', normalize_summary (PDict [])),
       (''features'', normalize_features (PDict [])),
       (''feasibility'', normalize_feasibility (PDict [])),
       (''system_flow'', normalize_system_flow (PDict [])),
       (''tech_stack'', normalize_tech_stack (PDict [])),
       (''comparison'', normalize_comparison (PDict [])),
       (''viva'', normalize_viva (PDict [])),
       (''pitch'', normalize_pitch (PDict [])),
       (''diagrams'', normalize_diagrams (PDict []))]"

definition normalize_blueprint :: "pyval \<Rightarrow> pyval" where
  "normalize_blueprint raw =
     (if \<not> truthy raw \<or> \<not> is_dict raw then get_fallback_blueprint
      else
        (let r = dict_or_empty raw in
         PDict
          [(''summary'', normalize_summary (dict_get r ''summary'' (PDict []))),
           (''features'', normalize_features (dict_get r ''features'' (PDict []))),
           (''feasibility'', normalize_feasibility (dict_get r ''feasibility'' (PDict []))),
           (''system_flow'', normalize_system_flow (dict_get r ''system_flow'' (PDict []))),
           (''tech_stack'', normalize_tech_stack (dict_get r ''tech_stack'' (PDict []))),
           (''comparison'', normalize_comparison (dict_get r ''comparison'' (PDict []))),
           (''viva'', normalize_viva (dict_get r ''viva'' (PDict []))),
           (''pitch'', normalize_pitch (dict_get r ''pitch'' (PDict []))),
           (''diagrams'', normalize_diagrams (dict_get r ''diagrams'' (PDict [])))]))"


text \<open>
  \<^verbatim>\<open>x[k]\<close> with a string key: KeyError on a dict without the key, TypeError on anything
  that is not a dict.  Both are the value \<open>None\<close> here.
\<close>

fun getitem :: "pyval \<Rightarrow> string \<Rightarrow> pyval option" where
  "getitem (PDict d) k = map_of d k"
| "getitem _ k = None"

fun getpath :: "pyval \<Rightarrow> string list \<Rightarrow> pyval option" where
  "getpath v [] = Some v"
| "getpath v (k # ks) = (case getitem v k of None \<Rightarrow> None | Some w \<Rightarrow> getpath w ks)"

definition map_to_frontend_format :: "pyval \<Rightarrow> pyval option" where
  "map_to_frontend_format normalized =
     do {
       problem_statement \<leftarrow> getpath normalized [''summary'', ''problem_statement''];
       target_users \<leftarrow> getpath normalized [''summary'', ''target_users''];
       objectives \<leftarrow> getpath normalized [''summary'', ''objectives''];
       scope \<leftarrow> getpath normalized [''summary'', ''scope''];
       what_this_means \<leftarrow> getpath normalized [''summary'', ''what_this_means''];
       why_this_matters \<leftarrow> getpath normalized [''summary'', ''why_this_matters''];
       evaluation \<leftarrow> getitem normalized ''feasibility'';
       featuresDetailed \<leftarrow> getitem normalized ''features'';
       systemFlow \<leftarrow> getitem normalized ''system_flow'';
       techStack \<leftarrow> getpath normalized [''tech_stack'', ''primary_stack''];
       primary_stack \<leftarrow> getpath normalized [''tech_stack'', ''primary_stack''];
       alternatives \<leftarrow> getpath normalized [''tech_stack'', ''backup_stack''];
       comparison \<leftarrow> getitem normalized ''comparison'';
       project_overview_explanation \<leftarrow> getpath normalized [''viva'', ''project_overview_explanation''];
       problem_statement_explanation \<leftarrow> getpath normalized [''viva'', ''problem_statement_explanation''];
       architecture_explanation \<leftarrow> getpath normalized [''viva'', ''architecture_explanation''];
       unique_feature_explanation \<leftarrow> getpath normalized [''viva'', ''unique_feature_explanation''];
       common_questions \<leftarrow> getpath normalized [''viva'', ''common_questions''];
       viva_questions \<leftarrow> getpath normalized [''viva'', ''common_questions''];
       hackathon_questions \<leftarrow> getpath normalized [''viva'', ''hackathon_questions''];
       pitch \<leftarrow> getitem normalized ''pitch'';
       userFlowMermaid \<leftarrow> getpath normalized [''diagrams'', ''user_flow_mermaid''];
       techStackMermaid \<leftarrow> getpath normalized [''diagrams'', ''tech_stack_mermaid''];
       Some (PDict
        [(''expandedIdea'', PDict
            [(''problem_statement'', problem_statement),
             (''target_users'', target_users),
             (''objectives'', objectives),
             (''scope'', scope),
             (''what_this_means'', what_this_means),
             (''why_this_matters'', why_this_matters)]),
         (''evaluation'', evaluation),
         (''featuresDetailed'', featuresDetailed),
         (''systemFlow'', systemFlow),
         (''techStack'', techStack),
         (''techStackExtended'', PDict
            [(''primary_stack'', primary_stack),
             (''alternatives'', alternatives)]),
         (''comparison'', comparison),
         (''vivaGuide'', PDict
            [(''project_overview_explanation'', project_overview_explanation),
             (''problem_statement_explanation'', problem_statement_explanation),
             (''architecture_explanation'', architecture_explanation),
             (''unique_feature_explanation'', unique_feature_explanation),
             (''common_questions'', common_questions)]),
         (''hackathonViva'', PDict
            [(''viva_questions'', viva_questions),
             (''hackathon_questions'', hackathon_questions)]),
         (''pitch'', pitch),
         (''userFlowMermaid'', userFlowMermaid),
         (''techStackMermaid'', techStackMermaid)])
     }"

subsection \<open>The schema of a normalized blueprint\<close>

text \<open>
  What the presentation layer relies on, written as a checkable schema: for every section
  its keys in order, and for every key the kind of value stored there.  A scalar field must
  be present and non-empty: a non-empty string, a number or a boolean.  \<open>Unchecked\<close> is
  for a key that is present with a value nothing is known about.
\<close>

datatype leaf = NonEmptyStr | AnyList | Level | Scalar | Unchecked

fun conforms_leaf :: "leaf \<Rightarrow> pyval \<Rightarrow> bool" where
  "conforms_leaf NonEmptyStr v = (case v of PStr s \<Rightarrow> s \<noteq> [] | _ \<Rightarrow> False)"
| "conforms_leaf AnyList v = (case v of PList xs \<Rightarrow> True | _ \<Rightarrow> False)"
| "conforms_leaf Level v = (v \<in> set feasibility_levels)"
| "conforms_leaf Scalar v =
     (case v of
        PStr s \<Rightarrow> s \<noteq> []
      | PInt i \<Rightarrow> True
      | PFloat r \<Rightarrow> True
      | PBool b \<Rightarrow> True
      | _ \<Rightarrow> False)"
| "conforms_leaf Unchecked v = True"

definition conforms_record :: "(string \<times> leaf) list \<Rightarrow> pyval \<Rightarrow> bool" where
  "conforms_record sch v =
     (case v of
        PDict d \<Rightarrow> list_all2 (\<lambda>(k, l) (k', w). k = k' \<and> conforms_leaf l w) sch d
      | _ \<Rightarrow> False)"

datatype field = Leaf leaf | Records "(string \<times> leaf) list"

fun conforms_field :: "field \<Rightarrow> pyval \<Rightarrow> bool" where
  "conforms_field (Leaf l) v = conforms_leaf l v"
| "conforms_field (Records sch) v =
     (case v of PList xs \<Rightarrow> list_all (conforms_record sch) xs | _ \<Rightarrow> False)"

definition conforms_section :: "(string \<times> field) list \<Rightarrow> pyval \<Rightarrow> bool" where
  "conforms_section sch v =
     (case v of
        PDict d \<Rightarrow> list_all2 (\<lambda>(k, f) (k', w). k = k' \<and> conforms_field f w) sch d
      | _ \<Rightarrow> False)"

definition section_names :: "string list" where
  "section_names =
     [''summary'', ''features'', ''feasibility'', ''system_flow'', ''tech_stack'',
      ''comparison'', ''viva'', ''pitch'', ''diagrams'']"

definition feature_schema :: "(string \<times> leaf) list" where
  "feature_schema =
     [(''feature_name'', NonEmptyStr), (''what_it_does'', NonEmptyStr),
      (''why_it_exists'', NonEmptyStr), (''how_it_helps'', NonEmptyStr),
      (''limitations'', NonEmptyStr)]"

definition step_schema :: "(string \<times> leaf) list" where
  "step_schema =
     [(''step_number'', Scalar), (''actor'', NonEmptyStr), (''action'', NonEmptyStr),
      (''explanation'', NonEmptyStr)]"

definition primary_schema :: "(string \<times> leaf) list" where
  "primary_schema =
     [(''category'', NonEmptyStr), (''technology'', NonEmptyStr),
      (''justification'', NonEmptyStr), (''skill_level'', NonEmptyStr)]"

definition backup_schema :: "(string \<times> leaf) list" where
  "backup_schema =
     [(''category'', NonEmptyStr), (''technology'', NonEmptyStr), (''why_backup'', NonEmptyStr)]"

definition solution_schema :: "(string \<times> leaf) list" where
  "solution_schema =
     [(''solution_name'', NonEmptyStr), (''what_it_does'', NonEmptyStr),
      (''limitations'', NonEmptyStr)]"

definition common_schema :: "(string \<times> leaf) list" where
  "common_schema =
     [(''question'', NonEmptyStr), (''suggested_answer'', NonEmptyStr),
      (''why_asked'', NonEmptyStr)]"

definition hackathon_schema :: "(string \<times> leaf) list" where
  "hackathon_schema =
     [(''question'', NonEmptyStr), (''suggested_response'', NonEmptyStr),
      (''key_points'', AnyList)]"

definition summary_schema :: "(string \<times> field) list" where
  "summary_schema =
     [(''problem_statement'', Leaf NonEmptyStr), (''target_users'', Leaf AnyList),
      (''objectives'', Leaf AnyList), (''scope'', Leaf NonEmptyStr),
      (''what_this_means'', Leaf NonEmptyStr), (''why_this_matters'', Leaf NonEmptyStr)]"

definition features_schema :: "(string \<times> field) list" where
  "features_schema = [(''features'', Records feature_schema)]"

definition feasibility_schema :: "(string \<times> field) list" where
  "feasibility_schema =
     [(''feasibility_level'', Leaf Level), (''feasibility_explanation'', Leaf NonEmptyStr),
      (''strengths'', Leaf AnyList), (''risks'', Leaf AnyList),
      (''why_this_matters'', Leaf NonEmptyStr)]"

definition system_flow_schema :: "(string \<times> field) list" where
  "system_flow_schema =
     [(''flow_title'', Leaf NonEmptyStr), (''steps'', Records step_schema),
      (''summary'', Leaf NonEmptyStr)]"

definition tech_stack_schema :: "(string \<times> field) list" where
  "tech_stack_schema =
     [(''primary_stack'', Records primary_schema), (''backup_stack'', Records backup_schema)]"

definition comparison_schema :: "(string \<times> field) list" where
  "comparison_schema =
     [(''existing_solutions'', Records solution_schema), (''unique_aspects'', Leaf AnyList),
      (''why_this_project_is_still_valuable'', Leaf AnyList),
      (''summary_insight'', Leaf NonEmptyStr)]"

definition viva_schema :: "(string \<times> field) list" where
  "viva_schema =
     [(''project_overview_explanation'', Leaf NonEmptyStr),
      (''problem_statement_explanation'', Leaf NonEmptyStr),
      (''architecture_explanation'', Leaf NonEmptyStr),
      (''unique_feature_explanation'', Leaf NonEmptyStr),
      (''common_questions'', Records common_schema),
      (''hackathon_questions'', Records hackathon_schema)]"

definition pitch_schema :: "(string \<times> field) list" where
  "pitch_schema =
     [(''thirty_second_pitch'', Leaf NonEmptyStr), (''one_minute_pitch'', Leaf NonEmptyStr),
      (''key_points'', Leaf AnyList)]"

definition diagrams_schema :: "(string \<times> field) list" where
  "diagrams_schema =
     [(''user_flow_mermaid'', Leaf NonEmptyStr), (''tech_stack_mermaid'', Leaf NonEmptyStr)]"

definition blueprint_schema :: "(string \<times> (string \<times> field) list) list" where
  "blueprint_schema =
     [(''summary'', summary_schema),
      (''features'', features_schema),
      (''feasibility'', feasibility_schema),
      (''system_flow'', system_flow_schema),
      (''tech_stack'', tech_stack_schema),
      (''comparison'', comparison_schema),
      (''viva'', viva_schema),
      (''pitch'', pitch_schema),
      (''diagrams'', diagrams_schema)]"

definition valid_blueprint :: "pyval \<Rightarrow> bool" where
  "valid_blueprint v =
     (case v of
        PDict secs \<Rightarrow>
          list_all2 (\<lambda>(n, sch) (n', sv). n = n' \<and> conforms_section sch sv) blueprint_schema secs
      | _ \<Rightarrow> False)"

text \<open>
  The same schema with the \<^verbatim>\<open>step_number\<close> of a step left unchecked: the key is there, its
  value is whatever \<^verbatim>\<open>step.get("step_number", i + 1)\<close> returned.
\<close>

definition stored_step_schema :: "(string \<times> leaf) list" where
  "stored_step_schema =
     [(''step_number'', Unchecked), (''actor'', NonEmptyStr), (''action'', NonEmptyStr),
      (''explanation'', NonEmptyStr)]"

definition stored_system_flow_schema :: "(string \<times> field) list" where
  "stored_system_flow_schema =
     [(''flow_title'', Leaf NonEmptyStr), (''steps'', Records stored_step_schema),
      (''summary'', Leaf NonEmptyStr)]"

definition stored_blueprint_schema :: "(string \<times> (string \<times> field) list) list" where
  "stored_blueprint_schema =
     [(''summary'', summary_schema),
      (''features'', features_schema),
      (''feasibility'', feasibility_schema),
      (''system_flow'', stored_system_flow_schema),
      (''tech_stack'', tech_stack_schema),
      (''comparison'', comparison_schema),
      (''viva'', viva_schema),
      (''pitch'', pitch_schema),
      (''diagrams'', diagrams_schema)]"

definition valid_except_step_numbers :: "pyval \<Rightarrow> bool" where
  "valid_except_step_numbers v =
     (case v of
        PDict secs \<Rightarrow>
          list_all2 (\<lambda>(n, sch) (n', sv). n = n' \<and> conforms_section sch sv)
            stored_blueprint_schema secs
      | _ \<Rightarrow> False)"

text \<open>The feasibility level a raw blueprint carries, when it carries one.\<close>

definition coerce_level :: "pyval option \<Rightarrow> pyval" where
  "coerce_level lv =
     (case lv of
        Some v \<Rightarrow> if v \<in> set feasibility_levels then v else PStr ''Medium''
      | None \<Rightarrow> PStr ''Medium'')"

text \<open>The \<^verbatim>\<open>step_number\<close> values of the steps of a system-flow section, in order.\<close>

definition step_numbers :: "pyval \<Rightarrow> pyval list" where
  "step_numbers flow =
     map (\<lambda>step. dict_get_none (dict_or_empty step) ''step_number'')
       (list_or_empty (dict_get_none (dict_or_empty flow) ''steps''))"

text \<open>The \<^verbatim>\<open>step_number\<close> values of the steps of a blueprint, in order.\<close>

definition blueprint_step_numbers :: "pyval \<Rightarrow> pyval list" where
  "blueprint_step_numbers v =
     (case getitem v ''system_flow'' of Some flow \<Rightarrow> step_numbers flow | None \<Rightarrow> [])"

text \<open>The value at a path of keys is a list with at least one element.\<close>

definition nonempty_list_at :: "pyval \<Rightarrow> string list \<Rightarrow> bool" where
  "nonempty_list_at v path =
     (case getpath v path of Some (PList xs) \<Rightarrow> xs \<noteq> [] | _ \<Rightarrow> False)"

text \<open>
  The raw value \<^verbatim>\<open>normalize_blueprint\<close> hands to the normalizer of a section: the empty dict on
  the fallback path, \<^verbatim>\<open>raw.get(section, {})\<close> otherwise.
\<close>

definition raw_section :: "pyval \<Rightarrow> string \<Rightarrow> pyval" where
  "raw_section raw k =
     (if \<not> truthy raw \<or> \<not> is_dict raw then PDict []
      else dict_get (dict_or_empty raw) k (PDict []))"

text \<open>The list stored in a raw blueprint at a path of keys; empty when there is none.\<close>

definition raw_list_at :: "pyval \<Rightarrow> string list \<Rightarrow> pyval list" where
  "raw_list_at raw path = (case getpath raw path of Some (PList xs) \<Rightarrow> xs | _ \<Rightarrow> [])"

section \<open>The provider cascade (services/llm_service.py)\<close>

subsection \<open>String operations\<close>

text \<open>\<^verbatim>\<open>sub in s\<close> on strings.\<close>

fun contains :: "string \<Rightarrow> string \<Rightarrow> bool" where
  "contains sub [] = (sub = [])"
| "contains sub (c # cs) = (prefix sub (c # cs) \<or> contains sub cs)"






text \<open>\<^verbatim>\<open>s.lower()\<close> on the code points below 256.\<close>

definition lower_char :: "char \<Rightarrow> char" where
  "lower_char c =
     (let n = (of_char c :: nat)
      in if (65 \<le> n \<and> n \<le> 90) \<or> (192 \<le> n \<and> n \<le> 214) \<or> (216 \<le> n \<and> n \<le> 222)
         then char_of (n + 32) else c)"

definition lower :: "string \<Rightarrow> string" where
  "lower s = map lower_char s"

text \<open>\<^verbatim>\<open>str(n)\<close> of a status code.\<close>

fun str_nat :: "nat \<Rightarrow> string" where
  "str_nat n =
     (if n < 10 then [''0123456789'' ! n]
      else str_nat (n div 10) @ [''0123456789'' ! (n mod 10)])"

declare str_nat.simps [simp del]

subsection \<open>Configuration\<close>

record api_keys =
  GEMINI_API_KEY :: string
  GROQ_API_KEY :: string
  OPENROUTER_API_KEY :: string

definition PROVIDER_ORDER :: "string list" where
  "PROVIDER_ORDER = [''gemini'', ''groq'', ''openrouter'']"

text \<open>
  \<^verbatim>\<open>key and key.strip() and key != "YOUR_API_KEY_HERE"\<close>, read as a truth value.
\<close>

definition has_valid_key :: "string \<Rightarrow> bool" where
  "has_valid_key key = (key \<noteq> [] \<and> strip key \<noteq> [] \<and> key \<noteq> ''YOUR_API_KEY_HERE'')"

definition IS_DEMO_MODE :: "api_keys \<Rightarrow> bool" where
  "IS_DEMO_MODE keys =
     (\<not> (has_valid_key (GEMINI_API_KEY keys) \<or> has_valid_key (GROQ_API_KEY keys)
          \<or> has_valid_key (OPENROUTER_API_KEY keys)))"

subsection \<open>Results and the network\<close>

text \<open>
  A result dict.  An optional field is \<open>None\<close> when the key is absent or holds Python's
  None.
\<close>

record gen_result =
  success :: bool
  content :: "pyval option"
  provider_used :: "string option"
  error :: "string option"
  error_details :: "string list option"
  is_demo :: "bool option"
  warning :: "string option"

definition succeeded :: "string \<Rightarrow> gen_result" where
  "succeeded text =
     \<lparr>success = True, content = Some (PStr text), provider_used = None, error = None,
      error_details = None, is_demo = None, warning = None\<rparr>"

definition failed :: "string \<Rightarrow> gen_result" where
  "failed msg =
     \<lparr>success = False, content = None, provider_used = None, error = Some msg,
      error_details = None, is_demo = None, warning = None\<rparr>"

text \<open>
  What one POST to a provider comes to: a response with its status code and, for a 200,
  what extracting the generated text from the body gives (the text, empty when the body has
  none, or the message of the exception the extraction raised); a timeout; or another
  exception with its message.  The generated text of a provider is a string, as the
  docstring of \<^verbatim>\<open>generate_with_fallback\<close> has it.
\<close>

datatype http_outcome =
    Response nat "string + string"
  | TimeoutException
  | OtherException string

text \<open>
  The world outside: the outcome of the POST to a provider with a prompt.  Temperature and
  token limit go into the request body unchanged and decide nothing in the cascade.  Every
  call made is recorded in a log of (provider, prompt) pairs, in order.
\<close>

type_synonym network = "string \<Rightarrow> string \<Rightarrow> http_outcome"

type_synonym call_log = "(string \<times> string) list"

subsection \<open>Provider clients\<close>

definition call_gemini :: "http_outcome \<Rightarrow> gen_result" where
  "call_gemini outcome =
     (case outcome of
        Response status body \<Rightarrow>
          if status = 200 then
            (case body of
               Inr text \<Rightarrow>
                 if text \<noteq> [] then succeeded text else failed ''Empty response from Gemini''
             | Inl e \<Rightarrow> failed e)
          else if status = 429 then failed ''Rate limited (429)''
          else if status \<in> set [401, 403]
            then failed (''Authentication failed ('' @ str_nat status @ '')'')
          else failed (''HTTP '' @ str_nat status)
      | TimeoutException \<Rightarrow> failed ''Timeout''
      | OtherException e \<Rightarrow> failed e)"

definition call_groq :: "http_outcome \<Rightarrow> gen_result" where
  "call_groq outcome =
     (case outcome of
        Response status body \<Rightarrow>
          if status = 200 then
            (case body of
               Inr text \<Rightarrow>
                 if text \<noteq> [] then succeeded text else failed ''Empty response from Groq''
             | Inl e \<Rightarrow> failed e)
          else if status = 429 then failed ''Rate limited (429)''
          else if status \<in> set [401, 403]
            then failed (''Authentication failed ('' @ str_nat status @ '')'')
          else failed (''HTTP '' @ str_nat status)
      | TimeoutException \<Rightarrow> failed ''Timeout''
      | OtherException e \<Rightarrow> failed e)"

definition call_openrouter :: "http_outcome \<Rightarrow> gen_result" where
  "call_openrouter outcome =
     (case outcome of
        Response status body \<Rightarrow>
          if status = 200 then
            (case body of
               Inr text \<Rightarrow>
                 if text \<noteq> [] then succeeded text else failed ''Empty response from DeepSeek''
             | Inl e \<Rightarrow> failed e)
          else if status = 429 then failed ''DeepSeek quota exceeded (429)''
          else if status = 402 then failed ''Payment required (402)''
          else if status \<in> set [401, 403]
            then failed (''Authentication failed ('' @ str_nat status @ '')'')
          else failed (''HTTP '' @ str_nat status)
      | TimeoutException \<Rightarrow> failed ''Timeout''
      | OtherException e \<Rightarrow> failed e)"

subsection \<open>Demo responses\<close>

definition get_demo_blueprint :: pyval where
  "get_demo_blueprint =
     PDict
      [(''summary'', PDict
        [(''problem_statement'', PStr ''Students and teachers struggle with manual attendance tracking, leading to errors and wasted time.''),
        (''target_users'', PList [PStr ''Students'', PStr ''Teachers'', PStr ''Administrators'']),
        (''objectives'', PList [PStr ''Automate attendance marking'', PStr ''Reduce manual errors'', PStr ''Generate reports automatically'', PStr ''Track attendance history'']),
        (''scope'', PStr ''Web-based attendance system for a single educational institution''),
        (''what_this_means'', PStr ''This project replaces paper-based attendance with a digital solution''),
        (''why_this_matters'', PStr ''Understanding scope helps you stay focused and explain your project clearly'')]),
      (''features'', PDict
        [(''features'', PList
          [PDict
            [(''feature_name'', PStr ''User Authentication''),
            (''what_it_does'', PStr ''Allows different users to log in securely''),
            (''why_it_exists'', PStr ''To protect student data and ensure only authorized access''),
            (''how_it_helps'', PStr ''Teachers can only see their classes, students can only see their records''),
            (''limitations'', PStr ''Requires password reset mechanism for forgotten passwords'')],
           PDict
            [(''feature_name'', PStr ''Attendance Marking''),
            (''what_it_does'', PStr ''Teachers can mark present/absent for each student''),
            (''why_it_exists'', PStr ''Core functionality that replaces manual roll call''),
            (''how_it_helps'', PStr ''Saves 5-10 minutes per class''),
            (''limitations'', PStr ''Requires internet connectivity'')]])]),
      (''feasibility'', PDict
        [(''feasibility_level'', PStr ''High''),
        (''feasibility_explanation'', PStr ''Uses standard web technologies taught in most colleges''),
        (''strengths'', PList [PStr ''Clear requirements'', PStr ''Well-documented technologies'', PStr ''Real-world application'']),
        (''risks'', PList [PStr ''Security implementation'', PStr ''Database design'', PStr ''Time management'']),
        (''why_this_matters'', PStr ''Knowing feasibility helps you plan realistically'')]),
      (''system_flow'', PDict
        [(''flow_title'', PStr ''Attendance Marking Flow''),
        (''steps'', PList
          [PDict
            [(''step_number'', PInt 1),
            (''actor'', PStr ''User''),
            (''action'', PStr ''Opens application''),
            (''explanation'', PStr ''Entry point'')],
           PDict
            [(''step_number'', PInt 2),
            (''actor'', PStr ''System''),
            (''action'', PStr ''Shows login page''),
            (''explanation'', PStr ''Security first'')],
           PDict
            [(''step_number'', PInt 3),
            (''actor'', PStr ''Teacher''),
            (''action'', PStr ''Enters credentials''),
            (''explanation'', PStr ''Authentication'')],
           PDict
            [(''step_number'', PInt 4),
            (''actor'', PStr ''System''),
            (''action'', PStr ''Validates and shows dashboard''),
            (''explanation'', PStr ''Role-based access'')],
           PDict
            [(''step_number'', PInt 5),
            (''actor'', PStr ''Teacher''),
            (''action'', PStr ''Selects class''),
            (''explanation'', PStr ''Choose which class to mark'')],
           PDict
            [(''step_number'', PInt 6),
            (''actor'', PStr ''System''),
            (''action'', PStr ''Shows student list''),
            (''explanation'', PStr ''Display markable students'')],
           PDict
            [(''step_number'', PInt 7),
            (''actor'', PStr ''Teacher''),
            (''action'', PStr ''Marks attendance''),
            (''explanation'', PStr ''Core action'')],
           PDict
            [(''step_number'', PInt 8),
            (''actor'', PStr ''System''),
            (''action'', PStr ''Saves and confirms''),
            (''explanation'', PStr ''Persistence and feedback'')]]),
        (''summary'', PStr ''Simple 8-step flow from login to confirmation'')]),
      (''tech_stack'', PDict
        [(''primary_stack'', PList
          [PDict
            [(''category'', PStr ''Frontend''),
            (''technology'', PStr ''React''),
            (''justification'', PStr ''Component-based, well-documented''),
            (''skill_level'', PStr ''Intermediate'')],
           PDict
            [(''category'', PStr ''Backend''),
            (''technology'', PStr ''Node.js + Express''),
            (''justification'', PStr ''JavaScript throughout the stack''),
            (''skill_level'', PStr ''Beginner-friendly'')],
           PDict
            [(''category'', PStr ''Database''),
            (''technology'', PStr ''MongoDB''),
            (''justification'', PStr ''Flexible schema, easy to learn''),
            (''skill_level'', PStr ''Beginner-friendly'')]]),
        (''backup_stack'', PList
          [PDict
            [(''category'', PStr ''Frontend''),
            (''technology'', PStr ''Vue.js''),
            (''why_backup'', PStr ''Simpler learning curve if React is too complex'')],
           PDict
            [(''category'', PStr ''Backend''),
            (''technology'', PStr ''Python Flask''),
            (''why_backup'', PStr ''If JavaScript backend is challenging'')]])]),
      (''comparison'', PDict
        [(''existing_solutions'', PList
          [PDict
            [(''solution_name'', PStr ''Google Forms''),
            (''what_it_does'', PStr ''Basic data collection''),
            (''limitations'', PStr ''No role-based access, no reports'')],
           PDict
            [(''solution_name'', PStr ''Enterprise ERP systems''),
            (''what_it_does'', PStr ''Full institution management''),
            (''limitations'', PStr ''Too complex and expensive for single use case'')]]),
        (''unique_aspects'', PList [PStr ''Focused on college use case'', PStr ''Student-friendly interface'', PStr ''Built-in report generation'']),
        (''why_this_project_is_still_valuable'', PList [PStr ''Learning experience'', PStr ''Customizable for specific needs'', PStr ''No licensing costs'']),
        (''summary_insight'', PStr ''While attendance systems exist, this project provides hands-on learning while creating something tailored to your institution's specific needs.'')]),
      (''viva'', PDict
        [(''project_overview_explanation'', PStr ''This is a web-based attendance system that helps teachers mark attendance digitally and generate reports automatically.''),
        (''problem_statement_explanation'', PStr ''Manual attendance wastes 5-10 minutes per class and is prone to errors. Our system automates this completely.''),
        (''architecture_explanation'', PStr ''We use a three-tier architecture: React frontend talks to Node.js backend, which stores data in MongoDB.''),
        (''unique_feature_explanation'', PStr ''Automatic report generation sets us apart from simple digital forms.''),
        (''common_questions'', PList
          [PDict
            [(''question'', PStr ''Why did you choose this tech stack?''),
            (''suggested_answer'', PStr ''React for reusable components, Node.js for JavaScript consistency, MongoDB for flexible data storage.''),
            (''why_asked'', PStr ''Tests if you made informed choices'')],
           PDict
            [(''question'', PStr ''What are the limitations?''),
            (''suggested_answer'', PStr ''Requires internet, no offline mode, single institution only.''),
            (''why_asked'', PStr ''Tests honesty and self-awareness'')]]),
        (''hackathon_questions'', PList
          [PDict
            [(''question'', PStr ''What makes this unique?''),
            (''suggested_response'', PStr ''Built specifically for college context with student-friendly design''),
            (''key_points'', PList [PStr ''Focus on UX'', PStr ''Report generation'', PStr ''Role-based access''])]])]),
      (''pitch'', PDict
        [(''thirty_second_pitch'', PStr ''Teachers spend 5-10 minutes every class on attendance. Our digital system does it in 30 seconds with zero errors and automatic reports.''),
        (''one_minute_pitch'', PStr ''Imagine never losing an attendance register again. Our system lets teachers mark attendance with a few clicks, generates reports instantly, and gives students transparency into their records. Built with modern web technologies, it's designed specifically for college environments.''),
        (''key_points'', PList [PStr ''Saves time'', PStr ''Eliminates errors'', PStr ''Automatic reports'', PStr ''Role-based access''])]),
      (''diagrams'', PDict
        [(''user_flow_mermaid'', PStr (join_lines [''flowchart TD'', ''    A[User Opens App] --> B{Logged In?}'', ''    B -->|No| C[Login Page]'', ''    B -->|Yes| D[Dashboard]'', ''    C --> E[Enter Credentials]'', ''    E --> F{Valid?}'', ''    F -->|No| C'', ''    F -->|Yes| D'', ''    D --> G[Select Class]'', ''    G --> H[Mark Attendance]'', ''    H --> I[Save & Confirm]''])),
        (''tech_stack_mermaid'', PStr (join_lines [''flowchart LR'', ''    subgraph Frontend'', ''        A[React App]'', ''    end'', ''    subgraph Backend'', ''        B[Node.js API]'', ''    end'', ''    subgraph Database'', ''        C[(MongoDB)]'', ''    end'', ''    A -->|HTTP| B'', ''    B -->|Queries| C'']))])]"

definition demo_expanded_idea :: pyval where
  "demo_expanded_idea =
     PDict
      [(''problem_statement'', PStr ''Students often spend valuable time manually tracking attendance, which is error-prone and time-consuming. A digital attendance system would automate this process, saving time and improving accuracy.''),
      (''target_users'', PList [PStr ''Students'', PStr ''Teachers'', PStr ''Administrators'']),
      (''objectives'', PList [PStr ''Automate the attendance tracking process'', PStr ''Reduce manual errors in attendance records'', PStr ''Provide easy access to attendance history'', PStr ''Generate attendance reports automatically'']),
      (''scope'', PStr ''This project covers a web-based attendance system for a single institution. Mobile app development and biometric integration are outside the current scope.''),
      (''what_this_means'', PStr ''Your project will help educational institutions move from paper-based attendance to a digital system that saves time and reduces errors.''),
      (''why_this_matters'', PStr ''Understanding your problem statement clearly is essential for explaining your project confidently in any review.'')]"

text \<open>\<^verbatim>\<open>json.dumps\<close> and \<^verbatim>\<open>json.loads\<close> belong to the standard library and are parameters
  here; \<open>loads\<close> returns \<open>Inl\<close> the message of the JSONDecodeError it raises.\<close>

record json_module =
  dumps :: "pyval \<Rightarrow> string"
  loads :: "string \<Rightarrow> string + pyval"

definition demo_result :: "string \<Rightarrow> gen_result" where
  "demo_result text =
     \<lparr>success = True, content = Some (PStr text), provider_used = None, error = None,
      error_details = None, is_demo = Some True, warning = None\<rparr>"

definition get_demo_response :: "json_module \<Rightarrow> string \<Rightarrow> gen_result" where
  "get_demo_response json prompt =
     (let prompt_lower = lower prompt in
      if contains ''master'' prompt_lower \<or> contains ''blueprint'' prompt_lower
         \<or> contains ''full'' prompt_lower
      then demo_result (dumps json get_demo_blueprint)
      else if contains ''problem statement'' prompt_lower \<or> contains ''expand'' prompt_lower
      then demo_result (dumps json demo_expanded_idea)
      else demo_result
        ''This is a demo response. Please configure at least one API key in the .env file for full AI functionality. The system supports: GEMINI_API_KEY, GROQ_API_KEY, or OPENROUTER_API_KEY (all free!).'')"

subsection \<open>The service\<close>

record llm_service =
  providers :: "string list"
  is_demo_mode :: bool

definition build_provider_list :: "api_keys \<Rightarrow> string list" where
  "build_provider_list keys =
     (if has_valid_key (GEMINI_API_KEY keys) then [''gemini''] else [])
     @ (if has_valid_key (GROQ_API_KEY keys) then [''groq''] else [])
     @ (if has_valid_key (OPENROUTER_API_KEY keys) then [''openrouter''] else [])"

definition LLMService :: "api_keys \<Rightarrow> llm_service" where
  "LLMService keys =
     \<lparr>providers = build_provider_list keys, is_demo_mode = IS_DEMO_MODE keys\<rparr>"

text \<open>
  The branch of the loop body that picks the client; \<open>None\<close> is the \<^verbatim>\<open>continue\<close> for a
  name that is none of the three.
\<close>

definition call_provider :: "string \<Rightarrow> http_outcome \<Rightarrow> gen_result option" where
  "call_provider provider outcome =
     (if provider = ''gemini'' then Some (call_gemini outcome)
      else if provider = ''groq'' then Some (call_groq outcome)
      else if provider = ''openrouter'' then Some (call_openrouter outcome)
      else None)"

definition all_failed :: "string list \<Rightarrow> gen_result" where
  "all_failed errors =
     \<lparr>success = False, content = None, provider_used = None,
      error = Some ''AI services are temporarily busy. Please try again later.'',
      error_details = Some errors, is_demo = None, warning = None\<rparr>"

text \<open>
  The loop of \<^verbatim>\<open>generate_with_fallback\<close> over \<^verbatim>\<open>self.providers\<close>, with the list of errors
  and the log of calls made so far.  The three clients catch every exception themselves,
  so the \<^verbatim>\<open>except\<close> branch of the loop body is never taken.
\<close>

fun cascade ::
  "network \<Rightarrow> string \<Rightarrow> string list \<Rightarrow> string list \<Rightarrow> call_log \<Rightarrow> gen_result \<times> call_log"
where
  "cascade net prompt [] errors calls = (all_failed errors, calls)"
| "cascade net prompt (provider # rest) errors calls =
     (case call_provider provider (net provider prompt) of
        None \<Rightarrow> cascade net prompt rest errors calls
      | Some result \<Rightarrow>
          if success result
          then (result\<lparr>provider_used := Some provider\<rparr>, calls @ [(provider, prompt)])
          else
            let error_msg = (case error result of Some e \<Rightarrow> e | None \<Rightarrow> ''Unknown error'')
            in cascade net prompt rest (errors @ [provider @ '': '' @ error_msg])
                 (calls @ [(provider, prompt)]))"

definition generate_with_fallback ::
  "json_module \<Rightarrow> llm_service \<Rightarrow> network \<Rightarrow> string \<Rightarrow> gen_result \<times> call_log"
where
  "generate_with_fallback json self net prompt =
     (if is_demo_mode self
      then ((get_demo_response json prompt)\<lparr>provider_used := Some ''demo''\<rparr>, [])
      else cascade net prompt (providers self) [] [])"

subsection \<open>The JSON variant\<close>





text \<open>The key of a provider, and what a failed call to it reports.\<close>

definition key_of :: "api_keys \<Rightarrow> string \<Rightarrow> string" where
  "key_of keys provider =
     (if provider = ''gemini'' then GEMINI_API_KEY keys
      else if provider = ''groq'' then GROQ_API_KEY keys
      else if provider = ''openrouter'' then OPENROUTER_API_KEY keys
      else [])"

definition failure_entry :: "network \<Rightarrow> string \<Rightarrow> string \<Rightarrow> string" where
  "failure_entry net prompt provider =
     provider @ '': '' @
       (case call_provider provider (net provider prompt) of
          Some result \<Rightarrow> (case error result of Some e \<Rightarrow> e | None \<Rightarrow> ''Unknown error'')
        | None \<Rightarrow> ''Unknown error'')"

text \<open>A call to a provider answers with a success.\<close>

definition provider_succeeds :: "network \<Rightarrow> string \<Rightarrow> string \<Rightarrow> bool" where
  "provider_succeeds net prompt provider =
     (case call_provider provider (net provider prompt) of
        Some result \<Rightarrow> success result
      | None \<Rightarrow> False)"

section \<open>Properties of the normalizer\<close>

lemma safe_string_nonempty:
  "dflt \<noteq> [] \<Longrightarrow> (case safe_string v dflt of PStr s \<Rightarrow> s \<noteq> [] | _ \<Rightarrow> False)"
  by (cases v) (auto simp: safe_string_def)

lemma safe_list_is_list: "(case safe_list v dflt of PList xs \<Rightarrow> True | _ \<Rightarrow> False)"
  by (cases v) (auto simp: safe_list_def)

lemma feature_items_conform: "list_all (conforms_record feature_schema) (normalize_feature_items fs)"
  by (induction fs rule: normalize_feature_items.induct)
     (simp_all add: conforms_record_def feature_schema_def safe_string_nonempty)

lemma step_items_conform: "list_all (conforms_record stored_step_schema) (normalize_steps i steps)"
  by (induction i steps rule: normalize_steps.induct)
     (simp_all add: conforms_record_def stored_step_schema_def safe_string_nonempty)

lemma primary_items_conform: "list_all (conforms_record primary_schema) (normalize_primary_items xs)"
  by (induction xs rule: normalize_primary_items.induct)
     (simp_all add: conforms_record_def primary_schema_def safe_string_nonempty)

lemma backup_items_conform: "list_all (conforms_record backup_schema) (normalize_backup_items xs)"
  by (induction xs rule: normalize_backup_items.induct)
     (simp_all add: conforms_record_def backup_schema_def safe_string_nonempty)

lemma solution_items_conform: "list_all (conforms_record solution_schema) (normalize_solution_items xs)"
  by (induction xs rule: normalize_solution_items.induct)
     (simp_all add: conforms_record_def solution_schema_def safe_string_nonempty)

lemma common_items_conform: "list_all (conforms_record common_schema) (normalize_common_items xs)"
  by (induction xs rule: normalize_common_items.induct)
     (simp_all add: conforms_record_def common_schema_def safe_string_nonempty)

lemma hackathon_items_conform: "list_all (conforms_record hackathon_schema) (normalize_hackathon_items xs)"
  by (induction xs rule: normalize_hackathon_items.induct)
     (simp_all add: conforms_record_def hackathon_schema_def safe_string_nonempty safe_list_is_list)

lemma default_features_conform: "list_all (conforms_record feature_schema) default_features"
  by (simp add: default_features_def conforms_record_def feature_schema_def)

lemma default_steps_conform: "list_all (conforms_record stored_step_schema) default_steps"
  by (simp add: default_steps_def conforms_record_def stored_step_schema_def)

lemma default_primary_conform: "list_all (conforms_record primary_schema) default_primary_stack"
  by (simp add: default_primary_stack_def conforms_record_def primary_schema_def)

lemma default_common_conform: "list_all (conforms_record common_schema) default_common_questions"
  by (simp add: default_common_questions_def conforms_record_def common_schema_def)

lemma default_hackathon_conform: "list_all (conforms_record hackathon_schema) default_hackathon_questions"
  by (simp add: default_hackathon_questions_def conforms_record_def hackathon_schema_def)

lemma default_user_flow_nonempty: "default_user_flow \<noteq> []"
  by (simp add: default_user_flow_def)

lemma default_tech_stack_nonempty: "default_tech_stack \<noteq> []"
  by (simp add: default_tech_stack_def)


lemma summary_conforms: "conforms_section summary_schema (normalize_summary d)"
  by (simp add: conforms_section_def summary_schema_def normalize_summary_def not_provided_def Let_def
        safe_string_nonempty safe_list_is_list)

lemma features_conforms: "conforms_section features_schema (normalize_features d)"
  by (simp add: conforms_section_def features_schema_def normalize_features_def Let_def
        feature_items_conform default_features_conform)

lemma feasibility_conforms: "conforms_section feasibility_schema (normalize_feasibility d)"
  by (simp add: conforms_section_def feasibility_schema_def normalize_feasibility_def Let_def
        safe_string_nonempty safe_list_is_list feasibility_levels_def)

lemma system_flow_conforms:
  "conforms_section stored_system_flow_schema (normalize_system_flow d)"
  by (simp add: conforms_section_def stored_system_flow_schema_def normalize_system_flow_def Let_def
        safe_string_nonempty step_items_conform default_steps_conform)

lemma tech_stack_conforms: "conforms_section tech_stack_schema (normalize_tech_stack d)"
  by (simp add: conforms_section_def tech_stack_schema_def normalize_tech_stack_def Let_def
        primary_items_conform backup_items_conform default_primary_conform)

lemma comparison_conforms: "conforms_section comparison_schema (normalize_comparison d)"
  by (simp add: conforms_section_def comparison_schema_def normalize_comparison_def Let_def
        safe_string_nonempty safe_list_is_list solution_items_conform)

lemma viva_conforms: "conforms_section viva_schema (normalize_viva d)"
  by (simp add: conforms_section_def viva_schema_def normalize_viva_def Let_def
        safe_string_nonempty common_items_conform hackathon_items_conform
        default_common_conform default_hackathon_conform)

lemma pitch_conforms: "conforms_section pitch_schema (normalize_pitch d)"
  by (simp add: conforms_section_def pitch_schema_def normalize_pitch_def Let_def
        safe_string_nonempty safe_list_is_list)

lemma diagrams_conforms: "conforms_section diagrams_schema (normalize_diagrams d)"
  by (simp add: conforms_section_def diagrams_schema_def normalize_diagrams_def Let_def
        safe_string_nonempty default_user_flow_nonempty default_tech_stack_nonempty)

lemmas section_conforms =
  summary_conforms features_conforms feasibility_conforms system_flow_conforms
  tech_stack_conforms comparison_conforms viva_conforms pitch_conforms diagrams_conforms

lemma fallback_valid: "valid_except_step_numbers get_fallback_blueprint"
  by (simp add: valid_except_step_numbers_def stored_blueprint_schema_def
        get_fallback_blueprint_def section_conforms)

lemma normalized_valid: "valid_except_step_numbers (normalize_blueprint raw)"
proof (cases "\<not> truthy raw \<or> \<not> is_dict raw")
  case True
  then show ?thesis by (simp add: normalize_blueprint_def fallback_valid)
next
  case False
  then show ?thesis
    by (simp add: normalize_blueprint_def Let_def valid_except_step_numbers_def
          stored_blueprint_schema_def section_conforms)
qed

lemma normalized_sections:
  "map fst (dict_or_empty (normalize_blueprint raw)) = section_names"
  by (simp add: normalize_blueprint_def get_fallback_blueprint_def section_names_def Let_def)

lemma feasibility_level_of_section:
  "getitem (normalize_feasibility d) ''feasibility_level'' =
     Some (coerce_level (getitem d ''feasibility_level''))"
  by (cases d) (simp_all add: normalize_feasibility_def Let_def dict_get_def coerce_level_def
        feasibility_levels_def split: option.splits)

lemma fallback_level:
  "getpath get_fallback_blueprint [''feasibility'', ''feasibility_level''] = Some (PStr ''Medium'')"
  by (simp add: get_fallback_blueprint_def normalize_feasibility_def Let_def dict_get_def
        feasibility_levels_def)

lemma normalized_level:
  "getpath (normalize_blueprint raw) [''feasibility'', ''feasibility_level''] =
     Some (coerce_level (getpath raw [''feasibility'', ''feasibility_level'']))"
proof (cases "\<not> truthy raw \<or> \<not> is_dict raw")
  case True
  then have a: "getpath raw [''feasibility'', ''feasibility_level''] = None"
    by (cases raw) auto
  have b: "normalize_blueprint raw = get_fallback_blueprint"
    using True by (simp add: normalize_blueprint_def)
  show ?thesis unfolding a b fallback_level by (simp add: coerce_level_def)
next
  case False
  then obtain r where r: "raw = PDict r" by (cases raw) auto
  show ?thesis
  proof (cases "map_of r ''feasibility''")
    case None
    then show ?thesis using False r
      by (simp add: normalize_blueprint_def dict_get_def feasibility_level_of_section)
  next
    case (Some d)
    then show ?thesis using False r
      by (simp add: normalize_blueprint_def dict_get_def feasibility_level_of_section
            split: option.splits)
  qed
qed

text \<open>
  C10. Every input that is not a dict (None, a string, a list, a number) normalizes to
  exactly \<^verbatim>\<open>get_fallback_blueprint()\<close>, and that fallback is what the empty dict normalizes
  to.
\<close>

theorem non_record_inputs_normalize_to_fallback:
  "(\<not> is_dict raw \<longrightarrow> normalize_blueprint raw = get_fallback_blueprint)
   \<and> get_fallback_blueprint = normalize_blueprint (PDict [])"
  by (simp add: normalize_blueprint_def)

theorem non_record_inputs_normalize_to_fallback_witness:
  "\<not> is_dict PNone \<and> normalize_blueprint PNone = normalize_blueprint (PDict [])
   \<and> \<not> is_dict (PStr ''just text'') \<and> normalize_blueprint (PStr ''just text'') = normalize_blueprint (PDict [])
   \<and> \<not> is_dict (PList [PInt 1]) \<and> normalize_blueprint (PList [PInt 1]) = normalize_blueprint (PDict [])
   \<and> \<not> is_dict (PInt 7) \<and> normalize_blueprint (PInt 7) = normalize_blueprint (PDict [])"
  using non_record_inputs_normalize_to_fallback [of PNone]
        non_record_inputs_normalize_to_fallback [of "PStr ''just text''"]
        non_record_inputs_normalize_to_fallback [of "PList [PInt 1]"]
        non_record_inputs_normalize_to_fallback [of "PInt 7"]
  by simp

lemma normalize_empty: "normalize_blueprint (PDict []) = get_fallback_blueprint"
  by (simp add: normalize_blueprint_def)

lemma safe_string_none: "safe_string PNone d = PStr d"
  by (simp add: safe_string_def)

lemma frontend_of_sections:
  "map_to_frontend_format
     (PDict
       [(''summary'', PDict [(''problem_statement'', a1), (''target_users'', a2), (''objectives'', a3),
                             (''scope'', a4), (''what_this_means'', a5), (''why_this_matters'', a6)]),
        (''features'', fs),
        (''feasibility'', fe),
        (''system_flow'', sf),
        (''tech_stack'', PDict [(''primary_stack'', p), (''backup_stack'', b)]),
        (''comparison'', c),
        (''viva'', PDict [(''project_overview_explanation'', v1), (''problem_statement_explanation'', v2),
                          (''architecture_explanation'', v3), (''unique_feature_explanation'', v4),
                          (''common_questions'', v5), (''hackathon_questions'', v6)]),
        (''pitch'', pt),
        (''diagrams'', PDict [(''user_flow_mermaid'', u), (''tech_stack_mermaid'', t)])]) =
   Some (PDict
        [(''expandedIdea'', PDict
            [(''problem_statement'', a1), (''target_users'', a2), (''objectives'', a3),
             (''scope'', a4), (''what_this_means'', a5), (''why_this_matters'', a6)]),
         (''evaluation'', fe),
         (''featuresDetailed'', fs),
         (''systemFlow'', sf),
         (''techStack'', p),
         (''techStackExtended'', PDict [(''primary_stack'', p), (''alternatives'', b)]),
         (''comparison'', c),
         (''vivaGuide'', PDict
            [(''project_overview_explanation'', v1), (''problem_statement_explanation'', v2),
             (''architecture_explanation'', v3), (''unique_feature_explanation'', v4),
             (''common_questions'', v5)]),
         (''hackathonViva'', PDict [(''viva_questions'', v5), (''hackathon_questions'', v6)]),
         (''pitch'', pt),
         (''userFlowMermaid'', u),
         (''techStackMermaid'', t)])"
  by (simp add: map_to_frontend_format_def)

lemma empty_tech_stack:
  "normalize_tech_stack (PDict []) =
     PDict [(''primary_stack'', PList default_primary_stack), (''backup_stack'', PList [])]"
  by (simp add: normalize_tech_stack_def Let_def dict_get_def)

lemma empty_diagrams:
  "normalize_diagrams (PDict []) =
     PDict [(''user_flow_mermaid'', PStr default_user_flow),
            (''tech_stack_mermaid'', PStr default_tech_stack)]"
  by (simp add: normalize_diagrams_def Let_def dict_get_def safe_string_none)

lemma fallback_frontend:
  "\<exists>a1 a2 a3 a4 a5 a6 fs fe sf c v1 v2 v3 v4 v5 v6 pt.
     map_to_frontend_format get_fallback_blueprint =
       Some (PDict
        [(''expandedIdea'', PDict
            [(''problem_statement'', a1), (''target_users'', a2), (''objectives'', a3),
             (''scope'', a4), (''what_this_means'', a5), (''why_this_matters'', a6)]),
         (''evaluation'', fe),
         (''featuresDetailed'', fs),
         (''systemFlow'', sf),
         (''techStack'', PList default_primary_stack),
         (''techStackExtended'', PDict [(''primary_stack'', PList default_primary_stack), (''alternatives'', PList [])]),
         (''comparison'', c),
         (''vivaGuide'', PDict
            [(''project_overview_explanation'', v1), (''problem_statement_explanation'', v2),
             (''architecture_explanation'', v3), (''unique_feature_explanation'', v4),
             (''common_questions'', v5)]),
         (''hackathonViva'', PDict [(''viva_questions'', v5), (''hackathon_questions'', v6)]),
         (''pitch'', pt),
         (''userFlowMermaid'', PStr default_user_flow),
         (''techStackMermaid'', PStr default_tech_stack)])"
  unfolding get_fallback_blueprint_def empty_tech_stack empty_diagrams
    normalize_summary_def normalize_viva_def Let_def frontend_of_sections
  by blast

text \<open>
  C9. \<^verbatim>\<open>map_to_frontend_format(normalize_blueprint({}))\<close> raises nothing; its
  \<^verbatim>\<open>techStack\<close> is the default primary stack of three entries and its
  \<^verbatim>\<open>userFlowMermaid\<close> is the default diagram, a non-empty string that starts with
  "flowchart".
\<close>

theorem empty_blueprint_frontend_format:
  "Option.bind (map_to_frontend_format (normalize_blueprint (PDict [])))
       (\<lambda>front. getitem front ''techStack'') = Some (PList default_primary_stack)
   \<and> 3 \<le> length default_primary_stack
   \<and> Option.bind (map_to_frontend_format (normalize_blueprint (PDict [])))
       (\<lambda>front. getitem front ''userFlowMermaid'') = Some (PStr default_user_flow)
   \<and> default_user_flow \<noteq> []
   \<and> prefix ''flowchart'' default_user_flow"
proof -
  from fallback_frontend obtain front where
    f: "map_to_frontend_format get_fallback_blueprint = Some front"
    and ts: "getitem front ''techStack'' = Some (PList default_primary_stack)"
    and uf: "getitem front ''userFlowMermaid'' = Some (PStr default_user_flow)"
    by fastforce
  have c: "3 \<le> length default_primary_stack" by (simp add: default_primary_stack_def)
  have d: "prefix ''flowchart'' default_user_flow" by (simp add: default_user_flow_def)
  have e: "default_user_flow \<noteq> []" by (simp add: default_user_flow_def)
  show ?thesis unfolding normalize_empty f using ts uf c d e by simp
qed

theorem empty_blueprint_frontend_format_witness:
  "Option.bind (map_to_frontend_format (normalize_blueprint (PDict [])))
       (\<lambda>front. getitem front ''userFlowMermaid'') = Some (PStr default_user_flow)
   \<and> take 9 default_user_flow = ''flowchart''
   \<and> length default_primary_stack = 3"
  using empty_blueprint_frontend_format
  by (simp add: default_user_flow_def default_primary_stack_def)


lemma normalize_blueprint_sections:
  "normalize_blueprint raw =
     PDict
      [(''summary'', normalize_summary (raw_section raw ''summary'')),
       (''features'', normalize_features (raw_section raw ''features'')),
       (''feasibility'', normalize_feasibility (raw_section raw ''feasibility'')),
       (''system_flow'', normalize_system_flow (raw_section raw ''system_flow'')),
       (''tech_stack'', normalize_tech_stack (raw_section raw ''tech_stack'')),
       (''comparison'', normalize_comparison (raw_section raw ''comparison'')),
       (''viva'', normalize_viva (raw_section raw ''viva'')),
       (''pitch'', normalize_pitch (raw_section raw ''pitch'')),
       (''diagrams'', normalize_diagrams (raw_section raw ''diagrams''))]"
  by (simp add: normalize_blueprint_def get_fallback_blueprint_def raw_section_def Let_def)

lemma list_or_empty_case: "list_or_empty x = (case x of PList xs \<Rightarrow> xs | _ \<Rightarrow> [])"
  by (cases x) simp_all

lemma raw_section_list:
  "list_or_empty (dict_get (dict_or_empty (raw_section raw s)) k (PList [])) = raw_list_at raw [s, k]"
proof (cases "\<not> truthy raw \<or> \<not> is_dict raw")
  case True
  then show ?thesis
    by (cases raw) (auto simp: raw_section_def raw_list_at_def dict_get_def)
next
  case False
  then obtain r where r: "raw = PDict r" by (cases raw) auto
  show ?thesis
  proof (cases "map_of r s")
    case None
    then show ?thesis using False r
      by (simp add: raw_section_def raw_list_at_def dict_get_def)
  next
    case (Some d)
    then show ?thesis using False r
      by (cases d)
         (auto simp: raw_section_def raw_list_at_def dict_get_def list_or_empty_case
               split: option.splits)
  qed
qed

subsection \<open>Step numbers\<close>

lemma normalize_steps_append:
  "normalize_steps i (xs @ ys) = normalize_steps i xs @ normalize_steps (i + length xs) ys"
  by (induction i xs rule: normalize_steps.induct) simp_all

lemma length_normalize_steps: "length (normalize_steps i xs) = length (filter is_dict xs)"
  by (induction i xs rule: normalize_steps.induct) simp_all

lemma normalize_steps_nth:
  assumes "k < length steps" and "steps ! k = PDict step"
  shows "normalize_steps i steps ! length (filter is_dict (take k steps)) =
     PDict
      [(''step_number'', dict_get step ''step_number'' (PInt (int (i + k) + 1))),
       (''actor'', safe_string (dict_get_none step ''actor'') ''User''),
       (''action'', safe_string (dict_get_none step ''action'') ''Performs action''),
       (''explanation'', safe_string (dict_get_none step ''explanation'') ''Part of the workflow'')]"
proof -
  have "steps = take k steps @ PDict step # drop (Suc k) steps"
    using assms by (metis id_take_nth_drop)
  then have "normalize_steps i steps =
      normalize_steps i (take k steps @ PDict step # drop (Suc k) steps)"
    by simp
  also have "\<dots> = normalize_steps i (take k steps)
      @ normalize_steps (i + k) (PDict step # drop (Suc k) steps)"
    using assms(1) by (simp add: normalize_steps_append min_def)
  finally show ?thesis
    by (simp add: nth_append length_normalize_steps)
qed

lemma system_flow_steps:
  assumes "map_of flow ''steps'' = Some (PList steps)" and "normalize_steps 0 steps \<noteq> []"
  shows "step_numbers (normalize_system_flow (PDict flow)) =
           map (\<lambda>step. dict_get_none (dict_or_empty step) ''step_number'') (normalize_steps 0 steps)"
  using assms by (simp add: step_numbers_def normalize_system_flow_def Let_def dict_get_def)

text \<open>
  C7, as the code has it.  A step that is a dict without a \<^verbatim>\<open>step_number\<close> key gets its
  1-based position in the raw \<^verbatim>\<open>steps\<close> list (elements that are not dicts count for the
  position, and are dropped from the output); a step that has the key keeps the value stored
  there, whatever its type.  The step at raw index \<open>k\<close> is found in the output at the number
  of dicts before it.
\<close>

theorem step_number_defaulted_when_missing:
  assumes "map_of flow ''steps'' = Some (PList steps)"
    and "k < length steps" and "steps ! k = PDict step"
  shows "length (filter is_dict (take k steps)) < length (step_numbers (normalize_system_flow (PDict flow)))
    \<and> step_numbers (normalize_system_flow (PDict flow)) ! length (filter is_dict (take k steps)) =
        (case map_of step ''step_number'' of None \<Rightarrow> PInt (int k + 1) | Some v \<Rightarrow> v)"
proof -
  let ?j = "length (filter is_dict (take k steps))"
  have split: "steps = take k steps @ PDict step # drop (Suc k) steps"
    using assms(2,3) by (metis id_take_nth_drop)
  have "length (filter is_dict steps) =
      length (filter is_dict (take k steps @ PDict step # drop (Suc k) steps))"
    using split by simp
  then have j: "?j < length (normalize_steps 0 steps)"
    by (simp add: length_normalize_steps)
  then have ne: "normalize_steps 0 steps \<noteq> []" by auto
  have sn: "step_numbers (normalize_system_flow (PDict flow)) =
           map (\<lambda>step. dict_get_none (dict_or_empty step) ''step_number'') (normalize_steps 0 steps)"
    using system_flow_steps [OF assms(1) ne] .
  show ?thesis
    using j normalize_steps_nth [OF assms(2,3), of 0]
    by (simp add: sn dict_get_def)
qed

theorem step_number_defaulted_when_missing_witness:
  "step_numbers (normalize_system_flow (PDict [(''steps'',
      PList [PStr ''junk'', PDict [(''actor'', PStr ''Admin'')], PDict [(''step_number'', PInt 7)]])])) ! 0
     = PInt 2
   \<and> step_numbers (normalize_system_flow (PDict [(''steps'',
      PList [PStr ''junk'', PDict [(''actor'', PStr ''Admin'')], PDict [(''step_number'', PInt 7)]])])) ! 1
     = PInt 7"
  using step_number_defaulted_when_missing
          [of "[(''steps'', PList [PStr ''junk'', PDict [(''actor'', PStr ''Admin'')],
                                    PDict [(''step_number'', PInt 7)]])]"
              "[PStr ''junk'', PDict [(''actor'', PStr ''Admin'')], PDict [(''step_number'', PInt 7)]]"
              1 "[(''actor'', PStr ''Admin'')]"]
        step_number_defaulted_when_missing
          [of "[(''steps'', PList [PStr ''junk'', PDict [(''actor'', PStr ''Admin'')],
                                    PDict [(''step_number'', PInt 7)]])]"
              "[PStr ''junk'', PDict [(''actor'', PStr ''Admin'')], PDict [(''step_number'', PInt 7)]]"
              2 "[(''step_number'', PInt 7)]"]
  by simp

text \<open>
  C7 as stated fails: a step whose \<^verbatim>\<open>step_number\<close> is the string "first" keeps that
  string; it is not replaced by its position 1.
\<close>

theorem step_number_non_numeric_kept:
  "step_numbers (normalize_system_flow
      (PDict [(''steps'', PList [PDict [(''step_number'', PStr ''first'')]])])) = [PStr ''first'']
   \<and> step_numbers (normalize_system_flow
      (PDict [(''steps'', PList [PDict [(''step_number'', PStr ''first'')]])])) \<noteq> [PInt 1]"
  by (simp add: step_numbers_def normalize_system_flow_def Let_def dict_get_def)


subsection \<open>Lists of records\<close>

lemma default_lists_nonempty:
  "default_features \<noteq> []" "default_steps \<noteq> []" "default_primary_stack \<noteq> []"
  "default_common_questions \<noteq> []" "default_hackathon_questions \<noteq> []"
  by (simp_all add: default_features_def default_steps_def default_primary_stack_def
        default_common_questions_def default_hackathon_questions_def)

lemma features_nonempty:
  "nonempty_list_at (normalize_blueprint raw) [''features'', ''features'']"
  unfolding normalize_blueprint_sections
  by (simp add: nonempty_list_at_def normalize_features_def Let_def default_lists_nonempty)

lemma steps_nonempty:
  "nonempty_list_at (normalize_blueprint raw) [''system_flow'', ''steps'']"
  unfolding normalize_blueprint_sections
  by (simp add: nonempty_list_at_def normalize_system_flow_def Let_def default_lists_nonempty)

lemma primary_nonempty:
  "nonempty_list_at (normalize_blueprint raw) [''tech_stack'', ''primary_stack'']"
  unfolding normalize_blueprint_sections
  by (simp add: nonempty_list_at_def normalize_tech_stack_def Let_def default_lists_nonempty)

lemma common_nonempty:
  "nonempty_list_at (normalize_blueprint raw) [''viva'', ''common_questions'']"
  unfolding normalize_blueprint_sections
  by (simp add: nonempty_list_at_def normalize_viva_def Let_def default_lists_nonempty)

lemma hackathon_nonempty:
  "nonempty_list_at (normalize_blueprint raw) [''viva'', ''hackathon_questions'']"
  unfolding normalize_blueprint_sections
  by (simp add: nonempty_list_at_def normalize_viva_def Let_def default_lists_nonempty)

lemma solutions_not_defaulted:
  "getpath (normalize_blueprint raw) [''comparison'', ''existing_solutions''] =
     Some (PList (normalize_solution_items (raw_list_at raw [''comparison'', ''existing_solutions''])))"
  unfolding normalize_blueprint_sections
  by (simp add: normalize_comparison_def Let_def raw_section_list)

lemma backup_not_defaulted:
  "getpath (normalize_blueprint raw) [''tech_stack'', ''backup_stack''] =
     Some (PList (normalize_backup_items (raw_list_at raw [''tech_stack'', ''backup_stack''])))"
  unfolding normalize_blueprint_sections
  by (simp add: normalize_tech_stack_def Let_def raw_section_list)

lemma length_solution_items: "length (normalize_solution_items xs) = length (filter is_dict xs)"
  by (induction xs rule: normalize_solution_items.induct) simp_all

lemma length_backup_items: "length (normalize_backup_items xs) = length (filter is_dict xs)"
  by (induction xs rule: normalize_backup_items.induct) simp_all

text \<open>
  C8, as the code has it.  Features, system-flow steps, primary tech-stack entries, common
  viva questions and hackathon questions are never empty in the output.  The comparison's
  existing solutions and the backup tech-stack entries get no default: the output holds the
  normalized dict elements of the raw list and nothing else, one per dict element.
\<close>

theorem list_fields_defaults:
  "nonempty_list_at (normalize_blueprint raw) [''features'', ''features'']
   \<and> nonempty_list_at (normalize_blueprint raw) [''system_flow'', ''steps'']
   \<and> nonempty_list_at (normalize_blueprint raw) [''tech_stack'', ''primary_stack'']
   \<and> nonempty_list_at (normalize_blueprint raw) [''viva'', ''common_questions'']
   \<and> nonempty_list_at (normalize_blueprint raw) [''viva'', ''hackathon_questions'']
   \<and> getpath (normalize_blueprint raw) [''comparison'', ''existing_solutions''] =
       Some (PList (normalize_solution_items (raw_list_at raw [''comparison'', ''existing_solutions''])))
   \<and> getpath (normalize_blueprint raw) [''tech_stack'', ''backup_stack''] =
       Some (PList (normalize_backup_items (raw_list_at raw [''tech_stack'', ''backup_stack''])))
   \<and> length (normalize_solution_items xs) = length (filter is_dict xs)
   \<and> length (normalize_backup_items xs) = length (filter is_dict xs)"
  using features_nonempty steps_nonempty primary_nonempty common_nonempty hackathon_nonempty
    solutions_not_defaulted backup_not_defaulted length_solution_items length_backup_items
  by blast

theorem list_fields_defaults_witness:
  "nonempty_list_at (normalize_blueprint (PDict [])) [''features'', ''features'']
   \<and> nonempty_list_at (normalize_blueprint (PDict [])) [''viva'', ''hackathon_questions'']
   \<and> getpath (normalize_blueprint (PDict [])) [''comparison'', ''existing_solutions''] = Some (PList [])
   \<and> getpath (normalize_blueprint (PDict [])) [''tech_stack'', ''backup_stack''] = Some (PList [])"
  using list_fields_defaults [of "PDict []" "[]"]
  by (simp add: raw_list_at_def)

text \<open>
  C8 as stated fails: the comparison section of \<^verbatim>\<open>normalize_blueprint({})\<close> has an empty
  \<^verbatim>\<open>existing_solutions\<close> list.
\<close>

theorem empty_comparison_has_no_solutions:
  "getpath (normalize_blueprint (PDict [])) [''comparison'', ''existing_solutions''] = Some (PList [])
   \<and> \<not> nonempty_list_at (normalize_blueprint (PDict [])) [''comparison'', ''existing_solutions'']"
proof -
  have "getpath (normalize_blueprint (PDict [])) [''comparison'', ''existing_solutions''] = Some (PList [])"
    unfolding solutions_not_defaulted by (simp add: raw_list_at_def)
  then show ?thesis unfolding nonempty_list_at_def by simp
qed

subsection \<open>Normalizing twice\<close>

lemma raw_section_normalized:
  "raw_section (normalize_blueprint raw) ''comparison'' = normalize_comparison (raw_section raw ''comparison'')"
  unfolding normalize_blueprint_sections
  by (simp add: raw_section_def dict_get_def)

lemma still_valuable_of_section:
  "getitem (normalize_comparison c) ''why_this_project_is_still_valuable'' =
     Some (safe_list
       (py_or (dict_get_none (dict_or_empty c) ''why_this_project_is_still_valuable'')
              (dict_get_none (dict_or_empty c) ''why_still_valuable''))
       [PStr ''Learning experience'', PStr ''Tailored to specific requirements''])"
  by (simp add: normalize_comparison_def Let_def)

lemma still_valuable_of_blueprint:
  "getpath (normalize_blueprint raw) [''comparison'', ''why_this_project_is_still_valuable''] =
     getitem (normalize_comparison (raw_section raw ''comparison'')) ''why_this_project_is_still_valuable''"
  unfolding normalize_blueprint_sections
  by (simp split: option.splits)

text \<open>
  C6 fails on the code.  In \<^verbatim>\<open>_normalize_comparison\<close> the alias lookup
  \<^verbatim>\<open>data.get("why_this_project_is_still_valuable") or data.get("why_still_valuable")\<close>
  treats an empty list as absent.  For the raw blueprint
  \<^verbatim>\<open>{"comparison": {"why_still_valuable": []}}\<close> the first pass stores the empty list; the
  second pass finds it falsy, finds no alias key, and substitutes the two-element default.
\<close>

theorem normalize_twice_replaces_empty_list:
  "getpath
      (normalize_blueprint (PDict [(''comparison'', PDict [(''why_still_valuable'', PList [])])]))
      [''comparison'', ''why_this_project_is_still_valuable''] = Some (PList [])
   \<and> getpath
      (normalize_blueprint
        (normalize_blueprint (PDict [(''comparison'', PDict [(''why_still_valuable'', PList [])])])))
      [''comparison'', ''why_this_project_is_still_valuable''] =
        Some (PList [PStr ''Learning experience'', PStr ''Tailored to specific requirements''])
   \<and> normalize_blueprint
        (normalize_blueprint (PDict [(''comparison'', PDict [(''why_still_valuable'', PList [])])]))
      \<noteq> normalize_blueprint (PDict [(''comparison'', PDict [(''why_still_valuable'', PList [])])])"
proof -
  let ?x = "PDict [(''comparison'', PDict [(''why_still_valuable'', PList [])])]"
  have sec: "raw_section ?x ''comparison'' = PDict [(''why_still_valuable'', PList [])]"
    by (simp add: raw_section_def dict_get_def)
  have one: "getpath (normalize_blueprint ?x) [''comparison'', ''why_this_project_is_still_valuable'']
      = Some (PList [])"
    unfolding still_valuable_of_blueprint sec still_valuable_of_section
    by (simp add: dict_get_def py_or_def safe_list_def)
  have two: "getpath (normalize_blueprint (normalize_blueprint ?x))
      [''comparison'', ''why_this_project_is_still_valuable'']
      = Some (PList [PStr ''Learning experience'', PStr ''Tailored to specific requirements''])"
    unfolding still_valuable_of_blueprint raw_section_normalized sec still_valuable_of_section
    by (simp add: normalize_comparison_def Let_def dict_get_def py_or_def safe_list_def)
  have "normalize_blueprint (normalize_blueprint ?x) \<noteq> normalize_blueprint ?x"
    using one two by (metis list.distinct(1) option.inject pyval.inject(5))
  with one two show ?thesis by blast
qed

theorem normalize_twice_replaces_empty_list_witness:
  "normalize_blueprint
      (normalize_blueprint (PDict [(''comparison'', PDict [(''why_still_valuable'', PList [])])]))
    \<noteq> normalize_blueprint (PDict [(''comparison'', PDict [(''why_still_valuable'', PList [])])])"
  using normalize_twice_replaces_empty_list by blast

subsection \<open>The schema of the output\<close>

lemma step_record_iff:
  "conforms_record step_schema v \<longleftrightarrow>
     conforms_record stored_step_schema v
     \<and> conforms_leaf Scalar (dict_get_none (dict_or_empty v) ''step_number'')"
proof (cases v)
  case (PDict d)
  then show ?thesis
    by (auto simp: conforms_record_def step_schema_def stored_step_schema_def dict_get_def
          list_all2_Cons1)
qed (simp_all add: conforms_record_def)

lemma step_records_iff:
  "list_all (conforms_record step_schema) xs \<longleftrightarrow>
     list_all (conforms_record stored_step_schema) xs
     \<and> list_all (conforms_leaf Scalar)
          (map (\<lambda>step. dict_get_none (dict_or_empty step) ''step_number'') xs)"
  by (induction xs) (auto simp only: step_record_iff list.map list.pred_inject)

lemma system_flow_shape:
  "\<exists>a xs b. normalize_system_flow d =
      PDict [(''flow_title'', PStr a), (''steps'', PList xs), (''summary'', PStr b)]
    \<and> a \<noteq> [] \<and> b \<noteq> [] \<and> list_all (conforms_record stored_step_schema) xs"
proof -
  obtain A xs B where shape: "normalize_system_flow d =
      PDict [(''flow_title'', A), (''steps'', PList xs), (''summary'', B)]"
    by (simp add: normalize_system_flow_def Let_def)
  from system_flow_conforms [of d] show ?thesis
    unfolding shape
    by (cases A; cases B) (simp_all add: conforms_section_def stored_system_flow_schema_def)
qed

lemma system_flow_schema_iff:
  "conforms_section system_flow_schema (normalize_system_flow d) \<longleftrightarrow>
     list_all (conforms_leaf Scalar) (step_numbers (normalize_system_flow d))"
proof -
  from system_flow_shape [of d] obtain a xs b where
    shape: "normalize_system_flow d =
      PDict [(''flow_title'', PStr a), (''steps'', PList xs), (''summary'', PStr b)]"
    and ok: "a \<noteq> []" "b \<noteq> []" "list_all (conforms_record stored_step_schema) xs"
    by blast
  have "conforms_section system_flow_schema (normalize_system_flow d) \<longleftrightarrow>
      list_all (conforms_record step_schema) xs"
    unfolding shape using ok by (simp add: conforms_section_def system_flow_schema_def)
  moreover have "step_numbers (normalize_system_flow d) =
      map (\<lambda>step. dict_get_none (dict_or_empty step) ''step_number'') xs"
    unfolding shape by (simp add: step_numbers_def dict_get_def)
  ultimately show ?thesis using ok(3) by (simp only: step_records_iff) simp
qed

lemma blueprint_step_numbers_normalized:
  "blueprint_step_numbers (normalize_blueprint raw) =
     step_numbers (normalize_system_flow (raw_section raw ''system_flow''))"
  unfolding normalize_blueprint_sections by (simp add: blueprint_step_numbers_def)

lemma valid_blueprint_iff:
  "valid_blueprint (normalize_blueprint raw) \<longleftrightarrow>
     list_all (conforms_leaf Scalar) (blueprint_step_numbers (normalize_blueprint raw))"
  unfolding blueprint_step_numbers_normalized
  unfolding normalize_blueprint_sections
  by (simp add: valid_blueprint_def blueprint_schema_def section_conforms system_flow_schema_iff)

lemma default_step_numbers:
  "step_numbers (normalize_system_flow (PDict [])) = [PInt 1, PInt 2, PInt 3]"
  by (simp add: step_numbers_def normalize_system_flow_def Let_def dict_get_def default_steps_def)

text \<open>
  C1, as the code has it.  \<^verbatim>\<open>normalize_blueprint\<close> returns, for every input, a dict with
  exactly the nine sections in which every section has all its keys, every string field is
  a non-empty string, every list field is a list, and \<^verbatim>\<open>feasibility_level\<close> is High, Medium
  or Low: the level of the raw blueprint when that is one of the three, Medium otherwise
  (also when it is missing).  The one field the normalizer stores unchecked is the
  \<^verbatim>\<open>step_number\<close> of a step: the output meets the whole schema exactly when every
  \<^verbatim>\<open>step_number\<close> in it is a non-empty scalar.  No operation of the function can raise on
  a JSON value, so the model has no error branch.
\<close>

theorem normalize_blueprint_total:
  "valid_except_step_numbers (normalize_blueprint raw)
   \<and> map fst (dict_or_empty (normalize_blueprint raw)) = section_names
   \<and> getpath (normalize_blueprint raw) [''feasibility'', ''feasibility_level''] =
       Some (coerce_level (getpath raw [''feasibility'', ''feasibility_level'']))
   \<and> (valid_blueprint (normalize_blueprint raw) \<longleftrightarrow>
        list_all (conforms_leaf Scalar) (blueprint_step_numbers (normalize_blueprint raw)))"
  using normalized_valid normalized_sections normalized_level valid_blueprint_iff by blast

theorem normalize_blueprint_total_witness:
  "valid_blueprint (normalize_blueprint PNone)
   \<and> valid_blueprint (normalize_blueprint (PDict []))
   \<and> valid_blueprint (normalize_blueprint (PDict [(''summary'', PStr ''not a dict'')]))
   \<and> valid_blueprint
       (normalize_blueprint (PDict [(''feasibility'', PDict [(''feasibility_level'', PStr ''Nonsense'')])]))
   \<and> map fst (dict_or_empty (normalize_blueprint PNone)) = section_names
   \<and> getpath
         (normalize_blueprint (PDict [(''feasibility'', PDict [(''feasibility_level'', PStr ''Nonsense'')])]))
         [''feasibility'', ''feasibility_level''] = Some (PStr ''Medium'')
   \<and> getpath
         (normalize_blueprint (PDict [(''feasibility'', PDict [(''feasibility_level'', PStr ''Low'')])]))
         [''feasibility'', ''feasibility_level''] = Some (PStr ''Low'')"
  using normalize_blueprint_total [of PNone]
        normalize_blueprint_total [of "PDict []"]
        normalize_blueprint_total [of "PDict [(''summary'', PStr ''not a dict'')]"]
        normalize_blueprint_total
          [of "PDict [(''feasibility'', PDict [(''feasibility_level'', PStr ''Nonsense'')])]"]
        normalize_blueprint_total
          [of "PDict [(''feasibility'', PDict [(''feasibility_level'', PStr ''Low'')])]"]
  by (simp add: coerce_level_def feasibility_levels_def blueprint_step_numbers_normalized
        raw_section_def dict_get_def default_step_numbers)

text \<open>
  C1 as stated fails: a raw step whose \<^verbatim>\<open>step_number\<close> is the empty string, or None,
  keeps it, so the output has a required scalar field that is empty.
\<close>

theorem empty_step_number_kept:
  "blueprint_step_numbers
      (normalize_blueprint
        (PDict [(''system_flow'', PDict [(''steps'', PList [PDict [(''step_number'', PStr [])]])])]))
     = [PStr []]
   \<and> \<not> valid_blueprint
      (normalize_blueprint
        (PDict [(''system_flow'', PDict [(''steps'', PList [PDict [(''step_number'', PStr [])]])])]))
   \<and> blueprint_step_numbers
      (normalize_blueprint
        (PDict [(''system_flow'', PDict [(''steps'', PList [PDict [(''step_number'', PNone)]])])]))
     = [PNone]
   \<and> \<not> valid_blueprint
      (normalize_blueprint
        (PDict [(''system_flow'', PDict [(''steps'', PList [PDict [(''step_number'', PNone)]])])]))"
proof -
  have a: "blueprint_step_numbers
      (normalize_blueprint
        (PDict [(''system_flow'', PDict [(''steps'', PList [PDict [(''step_number'', PStr [])]])])]))
     = [PStr []]"
    unfolding blueprint_step_numbers_normalized
    by (simp add: raw_section_def dict_get_def step_numbers_def normalize_system_flow_def Let_def)
  have b: "blueprint_step_numbers
      (normalize_blueprint
        (PDict [(''system_flow'', PDict [(''steps'', PList [PDict [(''step_number'', PNone)]])])]))
     = [PNone]"
    unfolding blueprint_step_numbers_normalized
    by (simp add: raw_section_def dict_get_def step_numbers_def normalize_system_flow_def Let_def)
  show ?thesis unfolding valid_blueprint_iff a b by simp
qed

section \<open>Properties of the provider cascade\<close>

subsection \<open>Configuration\<close>

lemma strip_Nil: "strip [] = []"
  by (simp add: strip_def)

lemma has_valid_key_iff:
  "has_valid_key key \<longleftrightarrow> strip key \<noteq> [] \<and> key \<noteq> ''YOUR_API_KEY_HERE''"
  by (auto simp: has_valid_key_def strip_Nil)

lemma providers_in_order:
  "providers (LLMService keys) = filter (\<lambda>p. has_valid_key (key_of keys p)) PROVIDER_ORDER"
  by (simp add: LLMService_def build_provider_list_def PROVIDER_ORDER_def key_of_def)

lemma demo_iff_no_providers:
  "is_demo_mode (LLMService keys) \<longleftrightarrow> providers (LLMService keys) = []"
  by (simp add: LLMService_def build_provider_list_def IS_DEMO_MODE_def)

lemma providers_distinct: "distinct (providers (LLMService keys))"
  unfolding providers_in_order by (simp add: PROVIDER_ORDER_def)

lemma providers_known:
  "q \<in> set (providers (LLMService keys)) \<Longrightarrow> q \<in> set PROVIDER_ORDER"
  unfolding providers_in_order by simp

lemma known_provider_called:
  "q \<in> set PROVIDER_ORDER \<Longrightarrow> \<exists>r. call_provider q outcome = Some r"
  by (auto simp: PROVIDER_ORDER_def call_provider_def)

lemma demo_response_tagged:
  "success (get_demo_response json prompt) \<and> is_demo (get_demo_response json prompt) = Some True
   \<and> (\<exists>text. content (get_demo_response json prompt) = Some (PStr text))"
  by (simp add: get_demo_response_def demo_result_def Let_def)

text \<open>
  C5.  The providers of a service are those of the three whose key is valid: not empty
  after stripping, and not the placeholder.  The service is in demo mode exactly when it
  has no provider, and then \<^verbatim>\<open>generate_with_fallback\<close> makes no call to the network and
  returns a success tagged \<^verbatim>\<open>provider_used = "demo"\<close>.
\<close>

theorem demo_mode_no_network:
  "(p \<in> set (providers (LLMService keys)) \<longleftrightarrow>
      p \<in> set PROVIDER_ORDER \<and> strip (key_of keys p) \<noteq> []
      \<and> key_of keys p \<noteq> ''YOUR_API_KEY_HERE'')
   \<and> (is_demo_mode (LLMService keys) \<longleftrightarrow> providers (LLMService keys) = [])
   \<and> (providers (LLMService keys) = [] \<longrightarrow>
        snd (generate_with_fallback json (LLMService keys) net prompt) = []
        \<and> success (fst (generate_with_fallback json (LLMService keys) net prompt))
        \<and> provider_used (fst (generate_with_fallback json (LLMService keys) net prompt)) = Some ''demo''
        \<and> is_demo (fst (generate_with_fallback json (LLMService keys) net prompt)) = Some True)"
proof -
  have a: "p \<in> set (providers (LLMService keys)) \<longleftrightarrow>
      p \<in> set PROVIDER_ORDER \<and> strip (key_of keys p) \<noteq> []
      \<and> key_of keys p \<noteq> ''YOUR_API_KEY_HERE''"
    unfolding providers_in_order by (auto simp: has_valid_key_iff)
  have b: "providers (LLMService keys) = [] \<longrightarrow>
        snd (generate_with_fallback json (LLMService keys) net prompt) = []
        \<and> success (fst (generate_with_fallback json (LLMService keys) net prompt))
        \<and> provider_used (fst (generate_with_fallback json (LLMService keys) net prompt)) = Some ''demo''
        \<and> is_demo (fst (generate_with_fallback json (LLMService keys) net prompt)) = Some True"
    using demo_response_tagged [of json prompt]
    by (simp add: generate_with_fallback_def demo_iff_no_providers)
  from a b demo_iff_no_providers show ?thesis by blast
qed

subsection \<open>The cascade\<close>

lemma cascade_first_success:
  assumes "\<forall>q\<in>set ps. \<exists>r. call_provider q (net q prompt) = Some r \<and> \<not> success r"
    and "call_provider p (net p prompt) = Some r" and "success r"
  shows "cascade net prompt (ps @ p # rest) errors calls =
           (r\<lparr>provider_used := Some p\<rparr>, calls @ map (\<lambda>q. (q, prompt)) (ps @ [p]))"
  using assms
proof (induction ps arbitrary: errors calls)
  case Nil
  then show ?case by simp
next
  case (Cons q ps)
  then obtain rq where rq: "call_provider q (net q prompt) = Some rq" "\<not> success rq"
    by auto
  have "cascade net prompt ((q # ps) @ p # rest) errors calls =
      cascade net prompt (ps @ p # rest)
        (errors @ [q @ '': '' @ (case error rq of Some e \<Rightarrow> e | None \<Rightarrow> ''Unknown error'')])
        (calls @ [(q, prompt)])"
    using rq by (simp add: Let_def)
  also have "\<dots> = (r\<lparr>provider_used := Some p\<rparr>,
      (calls @ [(q, prompt)]) @ map (\<lambda>q. (q, prompt)) (ps @ [p]))"
    using Cons by (intro Cons.IH) auto
  finally show ?case by simp
qed

lemma cascade_all_fail:
  assumes "\<forall>q\<in>set ps. \<exists>r. call_provider q (net q prompt) = Some r \<and> \<not> success r"
  shows "cascade net prompt ps errors calls =
           (all_failed (errors @ map (failure_entry net prompt) ps),
            calls @ map (\<lambda>q. (q, prompt)) ps)"
  using assms
proof (induction ps arbitrary: errors calls)
  case Nil
  then show ?case by simp
next
  case (Cons q ps)
  then obtain rq where rq: "call_provider q (net q prompt) = Some rq" "\<not> success rq"
    by auto
  have "cascade net prompt (q # ps) errors calls =
      cascade net prompt ps (errors @ [failure_entry net prompt q]) (calls @ [(q, prompt)])"
    using rq by (simp add: Let_def failure_entry_def)
  also have "\<dots> = (all_failed ((errors @ [failure_entry net prompt q]) @ map (failure_entry net prompt) ps),
      (calls @ [(q, prompt)]) @ map (\<lambda>q. (q, prompt)) ps)"
    using Cons by (intro Cons.IH) auto
  finally show ?case by simp
qed

lemma configured_failure:
  assumes "q \<in> set (providers (LLMService keys))" and "\<not> provider_succeeds net prompt q"
  shows "\<exists>r. call_provider q (net q prompt) = Some r \<and> \<not> success r"
proof -
  from assms(1) obtain r where "call_provider q (net q prompt) = Some r"
    using providers_known known_provider_called by blast
  with assms(2) show ?thesis by (simp add: provider_succeeds_def)
qed

text \<open>
  C2.  The providers of a service stand in the order gemini, groq, openrouter.  When the
  providers before \<open>p\<close> all fail and \<open>p\<close> succeeds, the result is the success of \<open>p\<close>
  tagged with \<open>p\<close>, and the calls made are one to each of the providers up to \<open>p\<close>, in
  order: none is called twice, and none of the providers after \<open>p\<close> is called.
\<close>

theorem cascade_returns_first_success:
  assumes "providers (LLMService keys) = ps @ p # rest"
    and "\<forall>q\<in>set ps. \<not> provider_succeeds net prompt q"
    and "call_provider p (net p prompt) = Some r" and "success r"
  shows "generate_with_fallback json (LLMService keys) net prompt =
           (r\<lparr>provider_used := Some p\<rparr>, map (\<lambda>q. (q, prompt)) (ps @ [p]))
    \<and> set rest \<inter> set (ps @ [p]) = {}
    \<and> distinct (ps @ [p])
    \<and> ps @ p # rest = filter (\<lambda>q. has_valid_key (key_of keys q)) PROVIDER_ORDER"
proof -
  have nd: "\<not> is_demo_mode (LLMService keys)"
    using assms(1) by (simp add: demo_iff_no_providers)
  have fails: "\<forall>q\<in>set ps. \<exists>r. call_provider q (net q prompt) = Some r \<and> \<not> success r"
    using assms(1,2) configured_failure by (metis in_set_conv_decomp append_Cons append_assoc UnCI set_append)
  have gen: "generate_with_fallback json (LLMService keys) net prompt =
           (r\<lparr>provider_used := Some p\<rparr>, map (\<lambda>q. (q, prompt)) (ps @ [p]))"
    using nd fails assms(3,4)
      cascade_first_success [where net = net and prompt = prompt and ps = ps and p = p
        and r = r and rest = rest and errors = "[]" and calls = "[]"]
    by (simp add: generate_with_fallback_def assms(1))
  have d: "distinct (ps @ p # rest)"
    using providers_distinct [of keys] by (simp add: assms(1))
  from d have "set rest \<inter> set (ps @ [p]) = {}" "distinct (ps @ [p])" by auto
  with gen providers_in_order [of keys] assms(1) show ?thesis by simp
qed

text \<open>
  C4.  When every configured provider fails, the result is a failure whose message is the
  fixed sentence, with no content and no provider, and whose \<^verbatim>\<open>error_details\<close> holds one
  entry "provider: reason" for each provider called, in the order of the calls.
\<close>

theorem all_providers_fail:
  assumes "providers (LLMService keys) \<noteq> []"
    and "\<forall>q\<in>set (providers (LLMService keys)). \<not> provider_succeeds net prompt q"
    and "generate_with_fallback json (LLMService keys) net prompt = (result, calls)"
  shows "\<not> success result
    \<and> error result = Some ''AI services are temporarily busy. Please try again later.''
    \<and> error_details result = Some (map (failure_entry net prompt) (providers (LLMService keys)))
    \<and> map fst calls = providers (LLMService keys)
    \<and> content result = None \<and> provider_used result = None"
proof -
  have nd: "\<not> is_demo_mode (LLMService keys)"
    using assms(1) by (simp add: demo_iff_no_providers)
  have fails: "\<forall>q\<in>set (providers (LLMService keys)).
      \<exists>r. call_provider q (net q prompt) = Some r \<and> \<not> success r"
    using assms(2) configured_failure by blast
  have "generate_with_fallback json (LLMService keys) net prompt =
      (all_failed (map (failure_entry net prompt) (providers (LLMService keys))),
       map (\<lambda>q. (q, prompt)) (providers (LLMService keys)))"
    using nd fails
      cascade_all_fail [where net = net and prompt = prompt
        and ps = "providers (LLMService keys)" and errors = "[]" and calls = "[]"]
    by (simp add: generate_with_fallback_def)
  with assms(3) show ?thesis by (auto simp: all_failed_def comp_def)
qed


subsection \<open>The JSON variant\<close>









subsection \<open>The cascade on concrete networks\<close>

theorem demo_mode_no_network_witness:
  "providers (LLMService \<lparr>GEMINI_API_KEY = [], GROQ_API_KEY = ''   '',
                          OPENROUTER_API_KEY = ''YOUR_API_KEY_HERE''\<rparr>) = []
   \<and> snd (generate_with_fallback \<lparr>dumps = (\<lambda>v. ''{}''), loads = (\<lambda>s. Inl ''Expecting value'')\<rparr>
        (LLMService \<lparr>GEMINI_API_KEY = [], GROQ_API_KEY = ''   '',
                      OPENROUTER_API_KEY = ''YOUR_API_KEY_HERE''\<rparr>)
        (\<lambda>p q. TimeoutException) ''expand my idea'') = []
   \<and> provider_used (fst (generate_with_fallback
        \<lparr>dumps = (\<lambda>v. ''{}''), loads = (\<lambda>s. Inl ''Expecting value'')\<rparr>
        (LLMService \<lparr>GEMINI_API_KEY = [], GROQ_API_KEY = ''   '',
                      OPENROUTER_API_KEY = ''YOUR_API_KEY_HERE''\<rparr>)
        (\<lambda>p q. TimeoutException) ''expand my idea'')) = Some ''demo''
   \<and> success (fst (generate_with_fallback
        \<lparr>dumps = (\<lambda>v. ''{}''), loads = (\<lambda>s. Inl ''Expecting value'')\<rparr>
        (LLMService \<lparr>GEMINI_API_KEY = [], GROQ_API_KEY = ''   '',
                      OPENROUTER_API_KEY = ''YOUR_API_KEY_HERE''\<rparr>)
        (\<lambda>p q. TimeoutException) ''expand my idea''))
   \<and> ''groq'' \<in> set (providers (LLMService \<lparr>GEMINI_API_KEY = [], GROQ_API_KEY = '' gsk_1 '',
                          OPENROUTER_API_KEY = ''YOUR_API_KEY_HERE''\<rparr>))
   \<and> ''openrouter'' \<notin> set (providers (LLMService \<lparr>GEMINI_API_KEY = [], GROQ_API_KEY = '' gsk_1 '',
                          OPENROUTER_API_KEY = ''YOUR_API_KEY_HERE''\<rparr>))"
proof -
  let ?k0 = "\<lparr>GEMINI_API_KEY = [], GROQ_API_KEY = ''   '',
              OPENROUTER_API_KEY = ''YOUR_API_KEY_HERE''\<rparr>"
  let ?k1 = "\<lparr>GEMINI_API_KEY = [], GROQ_API_KEY = '' gsk_1 '',
              OPENROUTER_API_KEY = ''YOUR_API_KEY_HERE''\<rparr>"
  let ?json = "\<lparr>dumps = (\<lambda>v. ''{}''), loads = (\<lambda>s. Inl ''Expecting value'')\<rparr>"
  have p0: "providers (LLMService ?k0) = []"
    by (simp add: LLMService_def build_provider_list_def has_valid_key_def strip_def isspace_def)
  have a: "snd (generate_with_fallback ?json (LLMService ?k0) (\<lambda>p q. TimeoutException)
              ''expand my idea'') = []
    \<and> success (fst (generate_with_fallback ?json (LLMService ?k0) (\<lambda>p q. TimeoutException)
              ''expand my idea''))
    \<and> provider_used (fst (generate_with_fallback ?json (LLMService ?k0)
              (\<lambda>p q. TimeoutException) ''expand my idea'')) = Some ''demo''"
    using demo_mode_no_network
            [of "''groq''" ?k0 ?json "\<lambda>p q. TimeoutException" "''expand my idea''"] p0
    by blast
  have b: "''groq'' \<in> set (providers (LLMService ?k1))"
    using demo_mode_no_network [of "''groq''" ?k1, THEN conjunct1]
    by (simp add: key_of_def PROVIDER_ORDER_def strip_def isspace_def)
  have c: "''openrouter'' \<notin> set (providers (LLMService ?k1))"
    using demo_mode_no_network [of "''openrouter''" ?k1, THEN conjunct1]
    by (simp add: key_of_def PROVIDER_ORDER_def strip_def isspace_def)
  from p0 a b c show ?thesis by blast
qed

theorem cascade_returns_first_success_witness:
  "generate_with_fallback \<lparr>dumps = (\<lambda>v. ''{}''), loads = (\<lambda>s. Inl ''Expecting value'')\<rparr>
      (LLMService \<lparr>GEMINI_API_KEY = ''k1'', GROQ_API_KEY = ''k2'', OPENROUTER_API_KEY = ''k3''\<rparr>)
      (\<lambda>p q. if p = ''gemini'' then Response 429 (Inr [])
             else if p = ''groq'' then Response 401 (Inr [])
             else Response 200 (Inr ''a plan''))
      ''my idea''
    = ((succeeded ''a plan'')\<lparr>provider_used := Some ''openrouter''\<rparr>,
       [(''gemini'', ''my idea''), (''groq'', ''my idea''), (''openrouter'', ''my idea'')])
   \<and> generate_with_fallback \<lparr>dumps = (\<lambda>v. ''{}''), loads = (\<lambda>s. Inl ''Expecting value'')\<rparr>
      (LLMService \<lparr>GEMINI_API_KEY = ''k1'', GROQ_API_KEY = ''k2'', OPENROUTER_API_KEY = ''k3''\<rparr>)
      (\<lambda>p q. Response 200 (Inr ''a plan''))
      ''my idea''
    = ((succeeded ''a plan'')\<lparr>provider_used := Some ''gemini''\<rparr>, [(''gemini'', ''my idea'')])"
proof -
  let ?json = "\<lparr>dumps = (\<lambda>v. ''{}''), loads = (\<lambda>s. Inl ''Expecting value'')\<rparr>"
  let ?keys = "\<lparr>GEMINI_API_KEY = ''k1'', GROQ_API_KEY = ''k2'', OPENROUTER_API_KEY = ''k3''\<rparr>"
  let ?netA = "\<lambda>p q. if p = ''gemini'' then Response 429 (Inr [])
             else if p = ''groq'' then Response 401 (Inr [])
             else Response 200 (Inr ''a plan'')"
  let ?netB = "\<lambda>p q. Response 200 (Inr ''a plan'')"
  have ps: "providers (LLMService ?keys) = [''gemini'', ''groq''] @ ''openrouter'' # []"
    "providers (LLMService ?keys) = [] @ ''gemini'' # [''groq'', ''openrouter'']"
    by (simp_all add: LLMService_def build_provider_list_def has_valid_key_def strip_def isspace_def)
  have failsA: "\<forall>q\<in>set [''gemini'', ''groq'']. \<not> provider_succeeds ?netA ''my idea'' q"
    by (simp add: provider_succeeds_def call_provider_def call_gemini_def call_groq_def failed_def)
  have okA: "call_provider ''openrouter'' (?netA ''openrouter'' ''my idea'') = Some (succeeded ''a plan'')"
    "success (succeeded ''a plan'')"
    by (simp_all add: call_provider_def call_openrouter_def succeeded_def)
  have okB: "call_provider ''gemini'' (?netB ''gemini'' ''my idea'') = Some (succeeded ''a plan'')"
    by (simp add: call_provider_def call_gemini_def)
  have failsB: "\<forall>q\<in>set []. \<not> provider_succeeds ?netB ''my idea'' q" by simp
  from cascade_returns_first_success [OF ps(1) failsA okA, of ?json]
       cascade_returns_first_success [OF ps(2) failsB okB okA(2), of ?json]
  show ?thesis by simp
qed

theorem all_providers_fail_witness:
  "error_details (fst (generate_with_fallback
      \<lparr>dumps = (\<lambda>v. ''{}''), loads = (\<lambda>s. Inl ''Expecting value'')\<rparr>
      (LLMService \<lparr>GEMINI_API_KEY = ''k1'', GROQ_API_KEY = ''k2'', OPENROUTER_API_KEY = []\<rparr>)
      (\<lambda>p q. if p = ''gemini'' then Response 429 (Inr []) else Response 403 (Inr []))
      ''my idea''))
    = Some [''gemini: Rate limited (429)'', ''groq: Authentication failed (403)'']
   \<and> error (fst (generate_with_fallback
      \<lparr>dumps = (\<lambda>v. ''{}''), loads = (\<lambda>s. Inl ''Expecting value'')\<rparr>
      (LLMService \<lparr>GEMINI_API_KEY = ''k1'', GROQ_API_KEY = ''k2'', OPENROUTER_API_KEY = []\<rparr>)
      (\<lambda>p q. if p = ''gemini'' then Response 429 (Inr []) else Response 403 (Inr []))
      ''my idea''))
    = Some ''AI services are temporarily busy. Please try again later.''
   \<and> map fst (snd (generate_with_fallback
      \<lparr>dumps = (\<lambda>v. ''{}''), loads = (\<lambda>s. Inl ''Expecting value'')\<rparr>
      (LLMService \<lparr>GEMINI_API_KEY = ''k1'', GROQ_API_KEY = ''k2'', OPENROUTER_API_KEY = []\<rparr>)
      (\<lambda>p q. if p = ''gemini'' then Response 429 (Inr []) else Response 403 (Inr []))
      ''my idea''))
    = [''gemini'', ''groq'']"
proof -
  let ?json = "\<lparr>dumps = (\<lambda>v. ''{}''), loads = (\<lambda>s. Inl ''Expecting value'')\<rparr>"
  let ?keys = "\<lparr>GEMINI_API_KEY = ''k1'', GROQ_API_KEY = ''k2'', OPENROUTER_API_KEY = []\<rparr>"
  let ?net = "\<lambda>p q. if p = ''gemini'' then Response 429 (Inr []) else Response 403 (Inr [])"
  let ?g = "generate_with_fallback ?json (LLMService ?keys) ?net ''my idea''"
  have ps: "providers (LLMService ?keys) = [''gemini'', ''groq'']"
    by (simp add: LLMService_def build_provider_list_def has_valid_key_def strip_def isspace_def)
  have ne: "providers (LLMService ?keys) \<noteq> []" by (simp add: ps)
  have fails: "\<forall>q\<in>set (providers (LLMService ?keys)). \<not> provider_succeeds ?net ''my idea'' q"
    unfolding ps
    by (simp add: provider_succeeds_def call_provider_def call_gemini_def call_groq_def failed_def)
  have g: "?g = (fst ?g, snd ?g)" by simp
  have entries: "map (failure_entry ?net ''my idea'') [''gemini'', ''groq'']
      = [''gemini: Rate limited (429)'', ''groq: Authentication failed (403)'']"
    by (simp add: failure_entry_def call_provider_def call_gemini_def call_groq_def failed_def
          str_nat.simps)
  from all_providers_fail [OF ne fails g] show ?thesis
    unfolding ps entries by simp
qed


end
